theory Spec2Isabelle
  imports Complex_Main
begin

section \<open>Python values shared by the components\<close>

text \<open>
  A raised Python exception is a value carrying its message (\<^verbatim>\<open>str(e)\<close>); a computation
  that may raise has type \<open>py_exception + 'a\<close>, with \<open>Inl\<close> for the raise.
\<close>

datatype py_exception = PyException string

fun str_exc :: "py_exception \<Rightarrow> string" where
  "str_exc (PyException m) = m"

text \<open>\<^verbatim>\<open>try: body  except Exception as e: handler(e)\<close>; the handler may raise as well.\<close>

fun try_except :: "py_exception + 'a \<Rightarrow> (py_exception \<Rightarrow> py_exception + 'a) \<Rightarrow> py_exception + 'a" where
  "try_except (Inr v) h = Inr v"
| "try_except (Inl e) h = h e"

text \<open>Sequencing of two statements of which the first may raise.\<close>

fun and_then :: "py_exception + 'a \<Rightarrow> ('a \<Rightarrow> py_exception + 'b) \<Rightarrow> py_exception + 'b" where
  "and_then (Inl e) f = Inl e"
| "and_then (Inr v) f = f v"

text \<open>
  \<^verbatim>\<open>str.upper()\<close> and \<^verbatim>\<open>str.lower()\<close> on the ASCII letters; every other character is
  left as it is.
\<close>

definition to_upper :: "char \<Rightarrow> char" where
  "to_upper c = (let n = (of_char c :: nat) in if 97 \<le> n \<and> n \<le> 122 then char_of (n - 32) else c)"

definition to_lower :: "char \<Rightarrow> char" where
  "to_lower c = (let n = (of_char c :: nat) in if 65 \<le> n \<and> n \<le> 90 then char_of (n + 32) else c)"

definition upper :: "string \<Rightarrow> string" where
  "upper s = map to_upper s"

definition lower :: "string \<Rightarrow> string" where
  "lower s = map to_lower s"

text \<open>Decimal rendering of a natural number and of an integer (\<^verbatim>\<open>str(n)\<close>).\<close>

function show_nat :: "nat \<Rightarrow> string" where
  "show_nat n = (if n < 10 then [char_of (48 + n)] else show_nat (n div 10) @ [char_of (48 + n mod 10)])"
  by pat_completeness auto
termination
  by (relation "measure (\<lambda>n. n)") auto

definition show_int :: "int \<Rightarrow> string" where
  "show_int i = (if i < 0 then CHR ''-'' # show_nat (nat (- i)) else show_nat (nat i))"

text \<open>
  What the handlers take from the Python runtime: float and date formatting and the clock.
  Dates are seconds since the epoch.
\<close>

record runtime =
  fmt_float :: "real \<Rightarrow> string"
  fmt_fixed :: "nat \<Rightarrow> real \<Rightarrow> string"
  utcnow :: int
  strftime :: "string \<Rightarrow> int \<Rightarrow> string"

section \<open>Data store (\<^verbatim>\<open>app/models\<close>)\<close>

datatype ShipmentStatus = PENDING | PICKED_UP | IN_TRANSIT | OUT_FOR_DELIVERY | DELIVERED | DELAYED | CANCELLED

fun status_value :: "ShipmentStatus \<Rightarrow> string" where
  "status_value PENDING = ''pending''"
| "status_value PICKED_UP = ''picked_up''"
| "status_value IN_TRANSIT = ''in_transit''"
| "status_value OUT_FOR_DELIVERY = ''out_for_delivery''"
| "status_value DELIVERED = ''delivered''"
| "status_value DELAYED = ''delayed''"
| "status_value CANCELLED = ''cancelled''"

text \<open>
  The columns of \<^verbatim>\<open>Shipment\<close> the tools read. The model class names its estimate column
  \<^verbatim>\<open>stimated_delivery\<close>.
\<close>

record Shipment =
  tracking_number :: string
  origin :: string
  destination :: string
  current_location :: "string option"
  status :: ShipmentStatus
  stimated_delivery :: "int option"
  actual_delivery :: "int option"

record Warehouse =
  name :: string
  city :: string
  state :: string
  capacity_sqm :: int
  current_utilization :: "int option"
  phone :: "string option"

text \<open>
  \<^verbatim>\<open>Warehouse.utilization_percentage\<close>: a missing \<^verbatim>\<open>current_utilization\<close> makes the
  division raise.
\<close>

definition utilization_percentage :: "Warehouse \<Rightarrow> py_exception + real" where
  "utilization_percentage wh =
     (if capacity_sqm wh = 0 then Inr 0
      else case current_utilization wh of
             None \<Rightarrow> Inl (PyException ''unsupported operand type(s) for /'')
           | Some u \<Rightarrow> Inr ((real_of_int u / real_of_int (capacity_sqm wh)) * 100))"

text \<open>
  The store behind \<^verbatim>\<open>SessionLocal()\<close>: its tables in their natural order, the fault
  with which every access (import of the models, opening the session, running the query)
  raises when the store is unavailable, and the comparison of the status column with a
  string, which is the backend's.
\<close>

record database =
  unavailable :: "string option"
  shipments :: "Shipment list"
  warehouses :: "Warehouse list"
  status_eq :: "string \<Rightarrow> py_exception + (ShipmentStatus \<Rightarrow> bool)"

text \<open>
  SQL \<^verbatim>\<open>LIKE\<close>: \<^verbatim>\<open>%\<close> matches any run of characters, \<^verbatim>\<open>_\<close> any one character.
  \<^verbatim>\<open>column.ilike(p)\<close> is \<^verbatim>\<open>lower(column) LIKE lower(p)\<close>.
\<close>

fun like :: "string \<Rightarrow> string \<Rightarrow> bool" where
  "like s [] = (s = [])"
| "like [] (p # ps) = (p = CHR ''%'' \<and> like [] ps)"
| "like (c # cs) (p # ps) =
     (if p = CHR ''%'' then like (c # cs) ps \<or> like cs (p # ps)
      else if p = CHR ''_'' then like cs ps
      else c = p \<and> like cs ps)"

definition ilike :: "string \<Rightarrow> string \<Rightarrow> bool" where
  "ilike col p = like (lower col) (lower p)"

text \<open>Python truthiness of an optional string argument: \<^verbatim>\<open>None\<close> and \<^verbatim>\<open>""\<close> are false.\<close>

fun truthy :: "string option \<Rightarrow> bool" where
  "truthy None = False"
| "truthy (Some s) = (s \<noteq> [])"

section \<open>Tool Registry (\<^verbatim>\<open>app/ai/tools.py\<close>)\<close>

subsection \<open>The queries the handlers run\<close>

text \<open>Every access to an unavailable store raises.\<close>

definition session :: "database \<Rightarrow> py_exception + database" where
  "session db = (case unavailable db of Some m \<Rightarrow> Inl (PyException m) | None \<Rightarrow> Inr db)"

text \<open>
  \<^verbatim>\<open>db.query(Shipment).filter(Shipment.tracking_number == tracking_number.upper()).first()\<close>
\<close>

definition get_shipment_status_match :: "database \<Rightarrow> string \<Rightarrow> py_exception + Shipment option" where
  "get_shipment_status_match db tn =
     and_then (session db) (\<lambda>d. Inr (find (\<lambda>s. tracking_number s = upper tn) (shipments d)))"

text \<open>
  \<^verbatim>\<open>db.query(Warehouse).filter(Warehouse.city.ilike(f"%{location}%")).limit(3).all()\<close>
\<close>

definition find_nearest_warehouse_match :: "database \<Rightarrow> string \<Rightarrow> py_exception + Warehouse list" where
  "find_nearest_warehouse_match db location =
     and_then (session db)
       (\<lambda>d. Inr (take 3 (filter (\<lambda>w. ilike (city w) (''%'' @ location @ ''%'')) (warehouses d))))"

text \<open>
  The three optional filters of \<^verbatim>\<open>search_shipments\<close>, each applied only to a truthy
  argument, then \<^verbatim>\<open>.limit(10).all()\<close>.
\<close>

definition search_shipments_match ::
  "database \<Rightarrow> string option \<Rightarrow> string option \<Rightarrow> string option \<Rightarrow> py_exception + Shipment list" where
  "search_shipments_match db st orig dest =
     and_then (session db) (\<lambda>d.
       and_then (if truthy st then status_eq d (the st) else Inr (\<lambda>_. True)) (\<lambda>sp.
         Inr (take 10
           (filter (\<lambda>s. \<not> truthy dest \<or> ilike (destination s) (''%'' @ the dest @ ''%''))
             (filter (\<lambda>s. \<not> truthy orig \<or> ilike (origin s) (''%'' @ the orig @ ''%''))
               (filter (\<lambda>s. sp (status s)) (shipments d)))))))"

subsection \<open>The handlers\<close>

definition get_shipment_status :: "database \<Rightarrow> string \<Rightarrow> py_exception + string" where
  "get_shipment_status db tn =
     try_except
       (and_then (get_shipment_status_match db tn) (\<lambda>shipment.
          case shipment of
            None \<Rightarrow> Inr (''Shipment with tracking number '' @ tn
                          @ '' not found. Please verify the tracking number and try again.'')
          | Some s \<Rightarrow>
              (let location = (if truthy (current_location s) then the (current_location s)
                               else ''Processing at origin'')
               in Inr (''Shipment '' @ tn @ '': Status is '' @ [CHR 0x27] @ status_value (status s)
                       @ [CHR 0x27] @ ''. Current location: '' @ location @ ''. Origin: '' @ origin s
                       @ '', Destination: '' @ destination s @ ''.''))))
       (\<lambda>e. Inr (''Unable to retrieve status for '' @ tn @ ''. Please try again.''))"

definition calculate_shipping_cost :: "runtime \<Rightarrow> string \<Rightarrow> string \<Rightarrow> real \<Rightarrow> py_exception + string" where
  "calculate_shipping_cost rt orig dest weight_kg =
     try_except
       (let base_rate = 10; per_kg_rate = 5 / 2;
            distance_factor = (if lower orig \<noteq> lower dest then 3 / 2 else 1);
            total_cost = (base_rate + weight_kg * per_kg_rate) * distance_factor
        in Inr (''Estimated shipping cost from '' @ orig @ '' to '' @ dest @ '' for ''
                @ fmt_float rt weight_kg @ ''kg: $'' @ fmt_fixed rt 2 total_cost
                @ '' USD. This includes base rate, weight charges, and distance calculation.''))
       (\<lambda>e. Inr ''Unable to calculate shipping cost. Please verify the input parameters.'')"

text \<open>One line of the warehouse listing; \<^verbatim>\<open>None\<close> prints as \<^verbatim>\<open>None\<close>.\<close>

definition warehouse_line :: "runtime \<Rightarrow> Warehouse \<Rightarrow> py_exception + string" where
  "warehouse_line rt wh =
     and_then (utilization_percentage wh) (\<lambda>u.
       Inr (''- '' @ name wh @ '' in '' @ city wh @ '', '' @ state wh @ '': '' @ fmt_fixed rt 1 u
            @ ''% utilized, Contact: '' @ (case phone wh of None \<Rightarrow> ''None'' | Some p \<Rightarrow> p)
            @ [CHR 0x0A]))"

text \<open>\<^verbatim>\<open>for x in xs: result += line(x)\<close>, stopping at the first line that raises.\<close>

fun append_lines :: "('a \<Rightarrow> py_exception + string) \<Rightarrow> string \<Rightarrow> 'a list \<Rightarrow> py_exception + string" where
  "append_lines f result [] = Inr result"
| "append_lines f result (x # xs) = and_then (f x) (\<lambda>l. append_lines f (result @ l) xs)"

definition find_nearest_warehouse :: "runtime \<Rightarrow> database \<Rightarrow> string \<Rightarrow> py_exception + string" where
  "find_nearest_warehouse rt db location =
     try_except
       (and_then (find_nearest_warehouse_match db location) (\<lambda>whs.
          if whs = [] then
            Inr (''No warehouses found near '' @ location
                 @ ''. Please try a different location or contact support.'')
          else append_lines (warehouse_line rt) (''Warehouses near '' @ location @ '':'' @ [CHR 0x0A]) whs))
       (\<lambda>e. Inr ''Unable to find nearby warehouses. Please try again.'')"

text \<open>
  \<^verbatim>\<open>shipment.estimated_delivery\<close>: the mapped class has no attribute of that name (its
  column is \<^verbatim>\<open>stimated_delivery\<close>), so the read raises \<^verbatim>\<open>AttributeError\<close>.
\<close>

definition estimated_delivery :: "Shipment \<Rightarrow> py_exception + int option" where
  "estimated_delivery s =
     Inl (PyException (''Shipment object has no attribute estimated_delivery''))"

definition estimate_delivery_time :: "runtime \<Rightarrow> database \<Rightarrow> string \<Rightarrow> py_exception + string" where
  "estimate_delivery_time rt db tn =
     try_except
       (and_then (get_shipment_status_match db tn) (\<lambda>shipment.
          case shipment of
            None \<Rightarrow> Inr (''Shipment '' @ tn @ '' not found.'')
          | Some s \<Rightarrow>
              (case actual_delivery s of
                 Some d \<Rightarrow> Inr (''Shipment '' @ tn @ '' was already delivered on ''
                                @ strftime rt ''%Y-%m-%d %H:%M'' d @ ''.'')
               | None \<Rightarrow>
                   and_then (estimated_delivery s) (\<lambda>est.
                     case est of
                       Some d \<Rightarrow>
                         Inr (''Shipment '' @ tn @ '' is estimated to be delivered on ''
                              @ strftime rt ''%Y-%m-%d'' d @ '' (approximately ''
                              @ show_int ((d - utcnow rt) div 86400) @ '' days from now).'')
                     | None \<Rightarrow>
                         (let est_days = 3
                          in Inr (''Shipment '' @ tn @ '' is estimated to be delivered by ''
                                  @ strftime rt ''%Y-%m-%d'' (utcnow rt + est_days * 86400)
                                  @ '' (approximately '' @ show_int est_days @ '' business days).''))))))
       (\<lambda>e. Inr ''Unable to estimate delivery time. Please try again.'')"

definition shipment_line :: "Shipment \<Rightarrow> py_exception + string" where
  "shipment_line ship =
     Inr (''- '' @ tracking_number ship @ '': '' @ status_value (status ship) @ '', '' @ origin ship
          @ [CHR 0x20, CHR 0xE2, CHR 0x86, CHR 0x92, CHR 0x20] @ destination ship @ [CHR 0x0A])"

definition search_shipments ::
  "database \<Rightarrow> string option \<Rightarrow> string option \<Rightarrow> string option \<Rightarrow> py_exception + string" where
  "search_shipments db st orig dest =
     try_except
       (and_then (search_shipments_match db st orig dest) (\<lambda>ships.
          if ships = [] then Inr ''No shipments found matching the criteria.''
          else append_lines shipment_line
                 (''Found '' @ show_nat (length ships) @ '' shipment(s):'' @ [CHR 0x0A]) ships))
       (\<lambda>e. Inr ''Unable to search shipments. Please try again.'')"

subsection \<open>The registry\<close>

text \<open>
  The five registered tools (\<^verbatim>\<open>LogisticsAIAgent.tools\<close>), each with arguments of the types
  its signature declares.
\<close>

datatype tool_call =
    GetShipmentStatus string
  | CalculateShippingCost string string real
  | FindNearestWarehouse string
  | EstimateDeliveryTime string
  | SearchShipments "string option" "string option" "string option"

fun invoke :: "runtime \<Rightarrow> database \<Rightarrow> tool_call \<Rightarrow> py_exception + string" where
  "invoke rt db (GetShipmentStatus tn) = get_shipment_status db tn"
| "invoke rt db (CalculateShippingCost orig dest w) = calculate_shipping_cost rt orig dest w"
| "invoke rt db (FindNearestWarehouse location) = find_nearest_warehouse rt db location"
| "invoke rt db (EstimateDeliveryTime tn) = estimate_delivery_time rt db tn"
| "invoke rt db (SearchShipments st orig dest) = search_shipments db st orig dest"

subsection \<open>A small store\<close>

definition db0 :: database where
  "db0 = \<lparr>unavailable = None,
     shipments = [\<lparr>tracking_number = ''TRACK1'', origin = ''Chicago'', destination = ''Boston'',
        current_location = None, status = PENDING, stimated_delivery = None, actual_delivery = None\<rparr>],
     warehouses = [\<lparr>name = ''Hub'', city = ''Chicago'', state = ''IL'', capacity_sqm = 100,
        current_utilization = Some 40, phone = None\<rparr>],
     status_eq = (\<lambda>v. Inr (\<lambda>s. status_value s = v))\<rparr>"

section \<open>Retrieval Subsystem (\<^verbatim>\<open>app/ai/rag.py\<close>)\<close>

subsection \<open>Documents and result dictionaries\<close>

text \<open>Python values as they appear in the dictionaries the operations return.\<close>

datatype py_value = PyNone | PyStr string | PyList "py_value list" | PyDict "(string \<times> py_value) list"

text \<open>\<^verbatim>\<open>langchain.schema.Document\<close>: the text and its metadata dictionary.\<close>

record Document =
  page_content :: string
  metadata :: "(string \<times> py_value) list"

text \<open>\<^verbatim>\<open>d.get(key, default)\<close>\<close>

definition dict_get :: "(string \<times> py_value) list \<Rightarrow> string \<Rightarrow> py_value \<Rightarrow> py_value" where
  "dict_get d k dflt = (case map_of d k of None \<Rightarrow> dflt | Some v \<Rightarrow> v)"

subsection \<open>The remote capabilities\<close>

text \<open>
  The embedding call, the distance between two embedding vectors, and the model call that
  composes an answer from the query and the chunks stuffed into its prompt. Each remote
  call may raise.
\<close>

record 'v services =
  embed :: "string \<Rightarrow> py_exception + 'v"
  distance :: "'v \<Rightarrow> 'v \<Rightarrow> real"
  llm :: "string \<Rightarrow> Document list \<Rightarrow> py_exception + string"

text \<open>
  The vector index: the chunks with their embedding vectors in insertion order, and the
  fault with which a query of the index raises when it is unavailable.
\<close>

record 'v Chroma =
  collection :: "(Document \<times> 'v) list"
  store_fault :: "string option"

text \<open>
  Modelled from the spec: the vector index's query, which is the vector-store library's.
  The query is embedded, and the \<open>k\<close> chunks nearest to it are returned, nearest first,
  chunks at the same distance in insertion order (\<open>sort_key\<close> is stable).
\<close>

definition similarity_search :: "'v services \<Rightarrow> 'v Chroma \<Rightarrow> string \<Rightarrow> nat \<Rightarrow> py_exception + Document list" where
  "similarity_search sv vs query k =
     and_then (embed sv query) (\<lambda>q.
       case store_fault vs of
         Some m \<Rightarrow> Inl (PyException m)
       | None \<Rightarrow> Inr (take k (map fst (sort_key (\<lambda>c. distance sv q (snd c)) (collection vs)))))"

text \<open>
  The chain built in \<^verbatim>\<open>__init__\<close>: \<^verbatim>\<open>RetrievalQA\<close> of type \<^verbatim>\<open>stuff\<close> over the retriever
  \<^verbatim>\<open>as_retriever(search_type="similarity", search_kwargs={"k": 4})\<close> with
  \<^verbatim>\<open>return_source_documents=True\<close>: it retrieves four chunks, has the model answer from
  them, and returns the answer with the chunks it used.
\<close>

definition qa_chain :: "'v services \<Rightarrow> 'v Chroma \<Rightarrow> string \<Rightarrow> py_exception + (string \<times> Document list)" where
  "qa_chain sv vs query =
     and_then (similarity_search sv vs query 4) (\<lambda>docs.
       and_then (llm sv query docs) (\<lambda>result. Inr (result, docs)))"

subsection \<open>\<^verbatim>\<open>LogisticsRAG.search\<close> and \<^verbatim>\<open>simple_search\<close>\<close>

record 'v LogisticsRAG =
  docs_directory :: string
  vector_store :: "'v Chroma"

definition search_row :: "Document \<Rightarrow> py_value" where
  "search_row doc =
     PyDict [(''content'', PyStr (page_content doc)),
             (''source'', dict_get (metadata doc) ''source'' (PyStr ''unknown'')),
             (''page'', dict_get (metadata doc) ''page'' PyNone)]"

definition search :: "'v services \<Rightarrow> 'v LogisticsRAG \<Rightarrow> string \<Rightarrow> nat \<Rightarrow> py_exception + py_value" where
  "search sv rag query top_k =
     try_except
       (and_then (similarity_search sv (vector_store rag) query top_k) (\<lambda>docs.
          and_then (qa_chain sv (vector_store rag) query) (\<lambda>result.
            Inr (PyDict [(''query'', PyStr query),
                         (''answer'', PyStr (fst result)),
                         (''results'', PyList (map search_row (snd result)))]))))
       (\<lambda>e. Inr (PyDict [(''query'', PyStr query),
                          (''answer'', PyStr ''I apologize, but I encountered an error searching the documentation.''),
                          (''results'', PyList []),
                          (''error'', PyStr (str_exc e))]))"

definition simple_search_row :: "Document \<Rightarrow> py_value" where
  "simple_search_row doc =
     PyDict [(''content'', PyStr (page_content doc)),
             (''source'', dict_get (metadata doc) ''source'' (PyStr ''unknown'')),
             (''relevance_score'', PyNone)]"

definition simple_search :: "'v services \<Rightarrow> 'v LogisticsRAG \<Rightarrow> string \<Rightarrow> nat \<Rightarrow> py_exception + py_value" where
  "simple_search sv rag query top_k =
     try_except
       (and_then (similarity_search sv (vector_store rag) query top_k) (\<lambda>docs.
          Inr (PyList (map simple_search_row docs))))
       (\<lambda>e. Inr (PyList []))"

subsection \<open>The built-in documents\<close>

text \<open>The text \<^verbatim>\<open>_create_sample_documents\<close> writes to \<^verbatim>\<open>operations_manual.txt\<close>.\<close>

definition sample_content :: string where
  "sample_content =
     ''\<newline>''
     @ ''# Logistics Operations Manual\<newline>''
     @ ''\<newline>''
     @ ''## Shipment Handling Procedures\<newline>''
     @ ''\<newline>''
     @ ''### Standard Shipping\<newline>''
     @ ''- Packages under 25kg can be shipped via standard ground service\<newline>''
     @ ''- Estimated delivery time: 3-5 business days\<newline>''
     @ ''- Cost: $10 base + $2.50 per kg\<newline>''
     @ ''\<newline>''
     @ ''### Express Shipping\<newline>''
     @ ''- Available for urgent deliveries\<newline>''
     @ ''- Packages delivered within 1-2 business days\<newline>''
     @ ''- Cost: $25 base + $5 per kg\<newline>''
     @ ''\<newline>''
     @ ''### International Shipping\<newline>''
     @ ''- Requires customs documentation\<newline>''
     @ ''- Estimated delivery: 7-14 business days\<newline>''
     @ ''- Additional fees apply based on destination\<newline>''
     @ ''\<newline>''
     @ ''## Warehouse Operations\<newline>''
     @ ''\<newline>''
     @ ''### Safety Procedures\<newline>''
     @ ''1. Always wear safety equipment in warehouse areas\<newline>''
     @ ''2. Follow proper lifting techniques for packages over 10kg\<newline>''
     @ ''3. Report any damaged items immediately\<newline>''
     @ ''\<newline>''
     @ ''### Storage Guidelines\<newline>''
     @ ''- Fragile items must be marked clearly\<newline>''
     @ ''- Hazardous materials require special storage\<newline>''
     @ ''- Maximum stack height: 3 meters\<newline>''
     @ ''\<newline>''
     @ ''## Customer Service\<newline>''
     @ ''\<newline>''
     @ ''### Tracking Issues\<newline>''
     @ ''If a customer cannot track their shipment:\<newline>''
     @ ''1. Verify tracking number format\<newline>''
     @ ''2. Check system for status updates\<newline>''
     @ ''3. Contact warehouse if no updates for 48+ hours\<newline>''
     @ ''\<newline>''
     @ ''### Damaged Packages\<newline>''
     @ ''1. Document damage with photos\<newline>''
     @ ''2. File insurance claim within 24 hours\<newline>''
     @ ''3. Arrange replacement shipment\<newline>''
     @ ''\<newline>''
     @ ''### Delivery Delays\<newline>''
     @ ''Common causes:\<newline>''
     @ ''- Weather conditions\<newline>''
     @ ''- Traffic and road closures\<newline>''
     @ ''- Customs clearance (international)\<newline>''
     @ ''- Address verification issues\<newline>''
     @ ''\<newline>''
     @ ''## Emergency Procedures\<newline>''
     @ ''\<newline>''
     @ ''### Lost Shipments\<newline>''
     @ ''1. Search warehouse and transit records\<newline>''
     @ ''2. Contact last known location\<newline>''
     @ ''3. File incident report\<newline>''
     @ ''4. Initiate investigation within 48 hours\<newline>''
     @ ''\<newline>''
     @ ''### Hazardous Spills\<newline>''
     @ ''1. Evacuate immediate area\<newline>''
     @ ''2. Contact emergency services\<newline>''
     @ ''3. Follow Material Safety Data Sheet protocols\<newline>''"

text \<open>\<^verbatim>\<open>_get_sample_documents\<close>\<close>

definition get_sample_documents :: "Document list" where
  "get_sample_documents =
     [\<lparr>page_content =
     ''Shipping Policy: Standard shipments take 3-5 business days. \<newline>''
     @ ''                Express shipping available for 1-2 day delivery. International shipments require \<newline>''
     @ ''                7-14 business days and customs documentation.'',
       metadata = [(''source'', PyStr ''shipping_policy'')]\<rparr>,
      \<lparr>page_content =
     ''Warehouse Safety: Always wear protective equipment. \<newline>''
     @ ''                Use proper lifting techniques for heavy packages. Report damaged items immediately.'',
       metadata = [(''source'', PyStr ''safety_manual'')]\<rparr>]"

subsection \<open>Splitting documents into chunks\<close>

text \<open>
  \<^verbatim>\<open>RecursiveCharacterTextSplitter(chunk_size=1000, chunk_overlap=200, length_function=len,
  separators=["\n\n", "\n", " ", ""])\<close>
\<close>

definition chunk_size :: nat where
  "chunk_size = 1000"

definition chunk_overlap :: nat where
  "chunk_overlap = 200"

definition separators :: "string list" where
  "separators = (''\<newline>\<newline>'') # (''\<newline>'') # ('' '') # ('''') # []"

definition ends_with :: "string \<Rightarrow> string \<Rightarrow> bool" where
  "ends_with s sep = (length sep \<le> length s \<and> drop (length s - length sep) s = sep)"

text \<open>
  Modelled from the spec: the splitting algorithm, which is the text-splitter library's.
  A document is cut into windows of at most \<open>chunk_size\<close> characters, each window starting
  \<open>chunk_overlap\<close> characters before the end of the one before it. A window that does not
  reach the end of the document ends at the last paragraph boundary inside it; if there is
  none, at the last line boundary; if there is none, at the last space; otherwise after
  \<open>chunk_size\<close> characters. Only boundaries past the overlap count, so that every window
  adds new text.
\<close>

definition boundary :: "string \<Rightarrow> string \<Rightarrow> nat option" where
  "boundary window sep =
     (case filter (\<lambda>e. ends_with (take e window) sep) (rev [Suc chunk_overlap ..< Suc (length window)]) of
        [] \<Rightarrow> None
      | e # _ \<Rightarrow> Some e)"

fun first_boundary :: "string \<Rightarrow> string list \<Rightarrow> nat" where
  "first_boundary window [] = length window"
| "first_boundary window (sep # seps) =
     (case boundary window sep of Some e \<Rightarrow> e | None \<Rightarrow> first_boundary window seps)"

definition window_end :: "string \<Rightarrow> nat" where
  "window_end text = first_boundary (take chunk_size text) separators"

function split_text :: "string \<Rightarrow> string list" where
  "split_text text =
     (if length text \<le> chunk_size then (if text = [] then [] else [text])
      else take (window_end text) text # split_text (drop (window_end text - chunk_overlap) text))"
  by pat_completeness auto
termination
proof (relation "measure length")
  show "wf (measure length)" by simp
next
  fix t :: string
  assume long: "\<not> length t \<le> chunk_size"
  have b: "chunk_overlap < e" if "boundary w sep = Some e" for w sep e
  proof -
    let ?cands = "filter (\<lambda>e. ends_with (take e w) sep) (rev [Suc chunk_overlap ..< Suc (length w)])"
    from that obtain es where "?cands = e # es"
      by (auto simp: boundary_def split: list.splits)
    then have "e \<in> set ?cands" by simp
    then show ?thesis by auto
  qed
  have f: "chunk_overlap < first_boundary w seps" if "chunk_overlap < length w" for w seps
    using that by (induction seps) (auto split: option.splits dest: b)
  have "chunk_overlap < window_end t"
    using long f [of "take chunk_size t" separators]
    by (simp add: window_end_def chunk_size_def chunk_overlap_def)
  with long show "(drop (window_end t - chunk_overlap) t, t) \<in> measure length"
    by (simp add: chunk_size_def)
qed

text \<open>
  Modelled from the spec: \<^verbatim>\<open>split_documents\<close>, the library's. Every window of a document
  becomes a chunk that carries the document's metadata.
\<close>

definition split_documents :: "Document list \<Rightarrow> Document list" where
  "split_documents documents =
     concat (map (\<lambda>d. map (\<lambda>c. \<lparr>page_content = c, metadata = metadata d\<rparr>) (split_text (page_content d)))
                 documents)"

text \<open>
  The spec's reconstruction, the concatenation of the chunks minus the overlaps: the first
  chunk, then every later chunk without the \<open>chunk_overlap\<close> characters it repeats.
\<close>

fun reconstruct :: "string list \<Rightarrow> string" where
  "reconstruct [] = []"
| "reconstruct (c # cs) = c @ concat (map (drop chunk_overlap) cs)"

text \<open>Neighbouring chunks share \<open>chunk_overlap\<close> characters.\<close>

fun overlapping :: "string list \<Rightarrow> bool" where
  "overlapping (a # b # cs) =
     (chunk_overlap \<le> length a \<and> chunk_overlap \<le> length b
      \<and> take chunk_overlap b = drop (length a - chunk_overlap) a \<and> overlapping (b # cs))"
| "overlapping _ = True"

subsection \<open>Ingestion at start-up\<close>

text \<open>
  The documents directory as the loaders see it: missing, or a listing of files. A file
  carries what its loader class returns for it, or the fault it raises.
\<close>

record source_file =
  file_path :: string
  file_load :: "py_exception + Document list"

datatype directory = Missing | Listing "source_file list"

record filesystem =
  docs_dir :: directory
  write_fault :: "string option"

fun load_all :: "source_file list \<Rightarrow> py_exception + Document list" where
  "load_all [] = Inr []"
| "load_all (f # fs) = and_then (file_load f) (\<lambda>ds. and_then (load_all fs) (\<lambda>rest. Inr (ds @ rest)))"

text \<open>
  \<^verbatim>\<open>DirectoryLoader(dir, glob="**/*<ext>", loader_cls=...).load()\<close>, the loader library's:
  the files with the extension are loaded one after the other, and a missing directory or
  a file that cannot be loaded raises.
\<close>

fun directory_load :: "directory \<Rightarrow> string \<Rightarrow> py_exception + Document list" where
  "directory_load Missing ext = Inl (PyException ''Directory not found'')"
| "directory_load (Listing fs) ext = load_all (filter (\<lambda>f. ends_with (file_path f) ext) fs)"

text \<open>The document the text loader returns for the written sample manual.\<close>

definition sample_manual :: "string \<Rightarrow> Document" where
  "sample_manual dir = \<lparr>page_content = sample_content,
                         metadata = [(''source'', PyStr (dir @ ''/operations_manual.txt''))]\<rparr>"

text \<open>
  \<^verbatim>\<open>_create_sample_documents\<close>: creates the directory and writes the manual into it, or
  raises when it cannot write.
\<close>

definition create_sample_documents :: "string \<Rightarrow> filesystem \<Rightarrow> (py_exception + unit) \<times> filesystem" where
  "create_sample_documents dir fs =
     (case write_fault fs of
        Some m \<Rightarrow> (Inl (PyException m), fs)
      | None \<Rightarrow>
          (Inr (),
           fs\<lparr>docs_dir := Listing [\<lparr>file_path = dir @ ''/operations_manual.txt'',
                                      file_load = Inr [sample_manual dir]\<rparr>]\<rparr>))"

text \<open>
  \<^verbatim>\<open>Chroma.from_documents\<close>, the vector-store library's. Every chunk is embedded and
  inserted into the index; a failing embedding call raises, and so does a call with no
  chunk at all, since the index rejects an empty batch (the message below stands for the
  library's own).
\<close>

fun embed_all :: "'v services \<Rightarrow> Document list \<Rightarrow> py_exception + (Document \<times> 'v) list" where
  "embed_all sv [] = Inr []"
| "embed_all sv (d # ds) =
     and_then (embed sv (page_content d)) (\<lambda>v. and_then (embed_all sv ds) (\<lambda>rest. Inr ((d, v) # rest)))"

definition from_documents :: "'v services \<Rightarrow> Document list \<Rightarrow> py_exception + 'v Chroma" where
  "from_documents sv splits =
     (if splits = [] then Inl (PyException ''Expected a non-empty list of documents'')
      else and_then (embed_all sv splits) (\<lambda>c. Inr \<lparr>collection = c, store_fault = None\<rparr>))"

text \<open>
  \<^verbatim>\<open>_load_documents_to_vector_store\<close>. The sample manual is written only when the
  directory does not exist, outside the \<^verbatim>\<open>try\<close>; the two loaders run inside it, and only
  a raise of theirs selects \<^verbatim>\<open>_get_sample_documents()\<close>.
\<close>

definition load_documents_to_vector_store ::
  "'v services \<Rightarrow> string \<Rightarrow> filesystem \<Rightarrow> (py_exception + 'v Chroma) \<times> filesystem" where
  "load_documents_to_vector_store sv dir fs =
     (case (if docs_dir fs = Missing then create_sample_documents dir fs else (Inr (), fs)) of
        (Inl e, fs1) \<Rightarrow> (Inl e, fs1)
      | (Inr _, fs1) \<Rightarrow>
          (and_then
             (try_except
                (and_then (directory_load (docs_dir fs1) ''.pdf'') (\<lambda>pdf.
                   and_then (directory_load (docs_dir fs1) ''.txt'') (\<lambda>txt. Inr (pdf @ txt))))
                (\<lambda>e. Inr get_sample_documents))
             (\<lambda>documents. from_documents sv (split_documents documents)),
           fs1))"

text \<open>\<^verbatim>\<open>vector_store._collection.count()\<close>\<close>

definition count :: "'v Chroma \<Rightarrow> py_exception + nat" where
  "count vs = (case store_fault vs of Some m \<Rightarrow> Inl (PyException m) | None \<Rightarrow> Inr (length (collection vs)))"

text \<open>
  \<^verbatim>\<open>_initialize_vector_store\<close>, given what opening the persisted index yields. The load in
  the \<^verbatim>\<open>try\<close> block is itself covered by the \<^verbatim>\<open>except\<close>, which loads once more; a raise
  of that second load leaves \<^verbatim>\<open>__init__\<close>.
\<close>

definition initialize_vector_store ::
  "'v services \<Rightarrow> string \<Rightarrow> py_exception + 'v Chroma \<Rightarrow> filesystem \<Rightarrow> (py_exception + 'v Chroma) \<times> filesystem" where
  "initialize_vector_store sv dir persisted fs =
     (case and_then persisted (\<lambda>vs. and_then (count vs) (\<lambda>n. Inr (vs, n))) of
        Inl e \<Rightarrow> load_documents_to_vector_store sv dir fs
      | Inr (vs, n) \<Rightarrow>
          if 0 < n then (Inr vs, fs)
          else (case load_documents_to_vector_store sv dir fs of
                  (Inl e, fs1) \<Rightarrow> load_documents_to_vector_store sv dir fs1
                | (Inr vs1, fs1) \<Rightarrow> (Inr vs1, fs1)))"

text \<open>\<^verbatim>\<open>LogisticsRAG.__init__\<close>\<close>

definition LogisticsRAG_init ::
  "'v services \<Rightarrow> string \<Rightarrow> py_exception + 'v Chroma \<Rightarrow> filesystem \<Rightarrow> (py_exception + 'v LogisticsRAG) \<times> filesystem" where
  "LogisticsRAG_init sv dir persisted fs =
     (case initialize_vector_store sv dir persisted fs of
        (Inl e, fs1) \<Rightarrow> (Inl e, fs1)
      | (Inr vs, fs1) \<Rightarrow> (Inr \<lparr>docs_directory = dir, vector_store = vs\<rparr>, fs1))"

subsection \<open>Small instances of the retrieval subsystem\<close>

text \<open>
  Services in which a text is embedded as its length; and the variants in which the
  embedding call and the model call are down.
\<close>

definition sv0 :: "nat services" where
  "sv0 = \<lparr>embed = (\<lambda>s. Inr (length s)),
          distance = (\<lambda>a b. \<bar>real a - real b\<bar>),
          llm = (\<lambda>q docs. Inr ''See the safety manual.'')\<rparr>"

definition sv_embed_down :: "nat services" where
  "sv_embed_down = sv0\<lparr>embed := (\<lambda>s. Inl (PyException ''embedding service unavailable''))\<rparr>"

definition sv_llm_down :: "nat services" where
  "sv_llm_down = sv0\<lparr>llm := (\<lambda>q docs. Inl (PyException ''model unavailable''))\<rparr>"

text \<open>The subsystem over the two built-in sample documents, and the same with its index down.\<close>

definition rag0 :: "nat LogisticsRAG" where
  "rag0 = \<lparr>docs_directory = ''./docs'',
           vector_store = \<lparr>collection = map (\<lambda>d. (d, length (page_content d))) get_sample_documents,
                           store_fault = None\<rparr>\<rparr>"

definition rag_index_down :: "nat LogisticsRAG" where
  "rag_index_down = rag0\<lparr>vector_store := (vector_store rag0)\<lparr>store_fault := Some ''index unavailable''\<rparr>\<rparr>"

definition empty_store :: "nat Chroma" where
  "empty_store = \<lparr>collection = [], store_fault = None\<rparr>"

definition fs_empty :: filesystem where
  "fs_empty = \<lparr>docs_dir = Listing [], write_fault = None\<rparr>"

definition fs_missing :: filesystem where
  "fs_missing = \<lparr>docs_dir = Missing, write_fault = None\<rparr>"

text \<open>A directory whose one file makes its loader raise.\<close>

definition fs_corrupt :: filesystem where
  "fs_corrupt = \<lparr>docs_dir = Listing [\<lparr>file_path = ''./docs/rates.pdf'',
                                         file_load = Inl (PyException ''EOF marker not found'')\<rparr>],
                 write_fault = None\<rparr>"

text \<open>The rows of a returned result: the \<^verbatim>\<open>results\<close> entry of a dictionary, or the list itself.\<close>

fun rows_of :: "py_exception + py_value \<Rightarrow> py_value list" where
  "rows_of (Inr (PyDict d)) = (case map_of d ''results'' of Some (PyList rs) \<Rightarrow> rs | _ \<Rightarrow> [])"
| "rows_of (Inr (PyList rs)) = rs"
| "rows_of _ = []"

text \<open>The dictionary \<^verbatim>\<open>search\<close> returns from its \<^verbatim>\<open>except\<close> branch.\<close>

definition search_error_reply :: "string \<Rightarrow> py_exception \<Rightarrow> py_value" where
  "search_error_reply q e =
     PyDict [(''query'', PyStr q),
             (''answer'', PyStr ''I apologize, but I encountered an error searching the documentation.''),
             (''results'', PyList []),
             (''error'', PyStr (str_exc e))]"

text \<open>A document of 2400 characters: one hundred lines of 24 characters.\<close>

definition doc2400 :: string where
  "doc2400 = concat (replicate 100 ''Report damaged parcels.\<newline>'')"

section \<open>Conversational Orchestrator (\<^verbatim>\<open>app/ai/agent.py\<close>, \<^verbatim>\<open>app/routers/ai.py\<close>)\<close>

subsection \<open>Turns, tool invocations and the agent\<close>

datatype role = User | Assistant | Tool

type_synonym turn = "role \<times> string"

text \<open>A tool call requested by the model: the tool's name and its arguments.\<close>

record AgentAction =
  tool :: string
  tool_input :: py_value

text \<open>An intermediate step: the action and the observation the tool returned.\<close>

type_synonym step = "AgentAction \<times> string"

text \<open>
  What \<^verbatim>\<open>executor.ainvoke({"input": message})\<close> returns: \<^verbatim>\<open>result["output"]\<close> and
  \<^verbatim>\<open>result["intermediate_steps"]\<close>.
\<close>

record exec_output =
  output' :: string
  intermediate_steps :: "step list"

text \<open>
  The executor as \<^verbatim>\<open>chat\<close> sees it: it reads and updates the one memory it was built with,
  and returns a result or raises.
\<close>

type_synonym executor = "turn list \<Rightarrow> string \<Rightarrow> (py_exception + exec_output) \<times> turn list"

text \<open>
  \<^verbatim>\<open>LogisticsAIAgent\<close>: the state that changes is the memory created once in \<^verbatim>\<open>__init__\<close>
  (\<^verbatim>\<open>ConversationBufferMemory\<close>) and handed to the executor.
\<close>

record LogisticsAIAgent =
  memory :: "turn list"

definition LogisticsAIAgent_init :: LogisticsAIAgent where
  "LogisticsAIAgent_init = \<lparr>memory = []\<rparr>"

text \<open>\<^verbatim>\<open>_extract_sources\<close>: tool, input and the first 200 characters of the observation.\<close>

definition extract_sources :: "step list \<Rightarrow> py_value list" where
  "extract_sources steps =
     map (\<lambda>s. PyDict [(''tool'', PyStr (tool (fst s))),
                       (''input'', tool_input (fst s)),
                       (''output'', PyStr (take 200 (snd s)))]) steps"

text \<open>\<^verbatim>\<open>conversation_id or "new"\<close>\<close>

definition or_new :: "string option \<Rightarrow> string" where
  "or_new conversation_id = (if truthy conversation_id then the conversation_id else ''new'')"

definition apology :: string where
  "apology = ''I apologize, but I encountered an error processing your request. Please try again or rephrase your question.''"

text \<open>
  \<^verbatim>\<open>LogisticsAIAgent.chat\<close>. The conversation id is not passed to the executor; it only
  appears in the returned dictionary.
\<close>

definition chat ::
  "executor \<Rightarrow> LogisticsAIAgent \<Rightarrow> string \<Rightarrow> string option \<Rightarrow> (py_exception + py_value) \<times> LogisticsAIAgent" where
  "chat ex agent message conversation_id =
     (case ex (memory agent) message of (result, mem) \<Rightarrow>
        (try_except
           (and_then result (\<lambda>r.
              Inr (PyDict [(''message'', PyStr (output' r)),
                           (''conversation_id'', PyStr (or_new conversation_id)),
                           (''tokens_used'', PyNone),
                           (''sources'', PyList (extract_sources (intermediate_steps r)))])))
           (\<lambda>e. Inr (PyDict [(''message'', PyStr apology),
                              (''conversation_id'', PyStr (or_new conversation_id)),
                              (''error'', PyStr (str_exc e))])),
         agent\<lparr>memory := mem\<rparr>))"

text \<open>\<^verbatim>\<open>clear_memory\<close>: \<^verbatim>\<open>self.memory.clear()\<close>\<close>

definition clear_memory :: "LogisticsAIAgent \<Rightarrow> LogisticsAIAgent" where
  "clear_memory agent = agent\<lparr>memory := []\<rparr>"

subsection \<open>The HTTP endpoints\<close>

text \<open>
  The module-level singleton \<^verbatim>\<open>_ai_agent\<close> and \<^verbatim>\<open>get_ai_agent\<close>, which creates the agent on
  first use and returns the same one ever after.
\<close>

record app_state =
  ai_agent :: "LogisticsAIAgent option"

definition get_ai_agent :: "app_state \<Rightarrow> LogisticsAIAgent \<times> app_state" where
  "get_ai_agent app =
     (case ai_agent app of
        None \<Rightarrow> (LogisticsAIAgent_init, app\<lparr>ai_agent := Some LogisticsAIAgent_init\<rparr>)
      | Some a \<Rightarrow> (a, app))"

text \<open>
  The response model of \<^verbatim>\<open>/chat\<close>. \<^verbatim>\<open>ChatResponse(**response)\<close> takes the four declared
  fields from the dictionary and ignores any other key; it raises when \<^verbatim>\<open>message\<close> or
  \<^verbatim>\<open>conversation_id\<close> is not a string.
\<close>

record ChatResponse =
  message :: string
  conversation_id :: string
  tokens_used :: "int option"
  sources :: "py_value list option"

definition ChatResponse_of :: "py_value \<Rightarrow> py_exception + ChatResponse" where
  "ChatResponse_of response =
     (case response of
        PyDict d \<Rightarrow>
          (case (map_of d ''message'', map_of d ''conversation_id'') of
             (Some (PyStr m), Some (PyStr c)) \<Rightarrow>
               Inr \<lparr>message = m, conversation_id = c, tokens_used = None,
                    sources = (case map_of d ''sources'' of Some (PyList xs) \<Rightarrow> Some xs | _ \<Rightarrow> None)\<rparr>
           | _ \<Rightarrow> Inl (PyException ''validation error for ChatResponse''))
      | _ \<Rightarrow> Inl (PyException ''argument after ** must be a mapping''))"

datatype 'a http_result = Ok 'a | HTTPException nat string

text \<open>\<^verbatim>\<open>POST /chat\<close>\<close>

definition chat_with_ai ::
  "executor \<Rightarrow> app_state \<Rightarrow> string \<Rightarrow> string option \<Rightarrow> ChatResponse http_result \<times> app_state" where
  "chat_with_ai ex app msg cid =
     (case get_ai_agent app of (agent, app1) \<Rightarrow>
        (case chat ex agent msg cid of (response, agent1) \<Rightarrow>
           (case and_then response ChatResponse_of of
              Inr r \<Rightarrow> Ok r
            | Inl e \<Rightarrow> HTTPException 500 (''Error processing chat request: '' @ str_exc e),
            app1\<lparr>ai_agent := Some agent1\<rparr>)))"

text \<open>
  \<^verbatim>\<open>DELETE /conversation/{conversation_id}\<close>: the id appears in the reply only; the call
  is \<^verbatim>\<open>agent.clear_memory()\<close>.
\<close>

definition clear_conversation :: "app_state \<Rightarrow> string \<Rightarrow> py_value http_result \<times> app_state" where
  "clear_conversation app cid =
     (case get_ai_agent app of (agent, app1) \<Rightarrow>
        (Ok (PyDict [(''message'', PyStr (''Conversation '' @ cid @ '' cleared'')),
                     (''conversation_id'', PyStr cid)]),
         app1\<lparr>ai_agent := Some (clear_memory agent)\<rparr>))"

subsection \<open>The executor\<close>

text \<open>
  \<^verbatim>\<open>AgentExecutor(agent, tools, memory, max_iterations=5, max_execution_time=30,
  handle_parsing_errors=True, return_intermediate_steps=True)\<close>
\<close>

definition max_iterations :: nat where
  "max_iterations = 5"

definition max_execution_time :: nat where
  "max_execution_time = 30"

text \<open>
  The capabilities the loop calls: the language model, asked for the \<open>n\<close>-th time with the
  prompt (history, new user message and the tool turns so far), which answers with text,
  with tool-call requests or with a response that cannot be parsed, or fails; the seconds
  elapsed since the first model call, read after the \<open>n\<close>-th model response; and the Tool
  Registry's dispatch, which returns the tool's string or fails on an unknown tool name.
\<close>

datatype model_reply = FinalAnswer string | ToolCalls "AgentAction list" | Unparseable string

record orchestration =
  model_call :: "nat \<Rightarrow> turn list \<Rightarrow> py_exception + model_reply"
  elapsed :: "nat \<Rightarrow> nat"
  dispatch :: "AgentAction \<Rightarrow> py_exception + string"

text \<open>
  Modelled from the spec: why an invocation was aborted (the spec's fault taxonomy), and the
  exception the executor raises for it.
\<close>

datatype abort = ModelUnavailable string | ModelParseFailure string | BudgetExceeded string | DispatchError string

fun abort_exception :: "abort \<Rightarrow> py_exception" where
  "abort_exception (ModelUnavailable m) = PyException m"
| "abort_exception (ModelParseFailure m) = PyException (''Could not parse model output: '' @ m)"
| "abort_exception (BudgetExceeded m) = PyException (''Agent stopped due to '' @ m)"
| "abort_exception (DispatchError m) = PyException m"

text \<open>
  The result of one invocation: its outcome (\<open>Aborted\<close> with the reason, or \<open>Done\<close> with
  the text and the tool invocations), the session history it leaves, and the numbers of
  model-to-tool round trips and of model calls it made.
\<close>

record run =
  outcome :: "abort + exec_output"
  history :: "turn list"
  round_trips :: nat
  model_calls :: nat

text \<open>
  Modelled from the spec: the state \<open>Awaiting-Model\<close> of the orchestration loop, which is
  the agent-executor library's. A failed model call aborts; the wall-clock budget is
  checked after each model response; a response that cannot be parsed is asked for once
  more and aborts when the retry cannot be parsed either. \<open>n\<close> is the number of model calls
  made so far.
\<close>

definition await_response :: "orchestration \<Rightarrow> nat \<Rightarrow> turn list \<Rightarrow> (abort + model_reply) \<times> nat" where
  "await_response oc n prompt =
     (case model_call oc (Suc n) prompt of
        Inl e \<Rightarrow> (Inl (ModelUnavailable (str_exc e)), Suc n)
      | Inr r \<Rightarrow>
          if max_execution_time < elapsed oc (Suc n) then (Inl (BudgetExceeded ''time limit''), Suc n)
          else (case r of
                  Unparseable t \<Rightarrow>
                    (case model_call oc (Suc (Suc n)) prompt of
                       Inl e \<Rightarrow> (Inl (ModelUnavailable (str_exc e)), Suc (Suc n))
                     | Inr r2 \<Rightarrow>
                         if max_execution_time < elapsed oc (Suc (Suc n))
                         then (Inl (BudgetExceeded ''time limit''), Suc (Suc n))
                         else (case r2 of
                                 Unparseable t2 \<Rightarrow> (Inl (ModelParseFailure t2), Suc (Suc n))
                               | _ \<Rightarrow> (Inr r2, Suc (Suc n))))
                | _ \<Rightarrow> (Inr r, Suc n)))"

text \<open>
  Modelled from the spec: the state \<open>Dispatching-Tool\<close>. The requested tools are invoked
  one after the other; the steps completed are returned with the fault that stopped the
  dispatch, if any.
\<close>

fun dispatch_all :: "(AgentAction \<Rightarrow> py_exception + string) \<Rightarrow> AgentAction list \<Rightarrow> step list \<times> py_exception option" where
  "dispatch_all d [] = ([], None)"
| "dispatch_all d (c # cs) =
     (case d c of
        Inl e \<Rightarrow> ([], Some e)
      | Inr obs \<Rightarrow> (case dispatch_all d cs of (completed, err) \<Rightarrow> ((c, obs) # completed, err)))"

definition tool_turns :: "step list \<Rightarrow> turn list" where
  "tool_turns steps = map (\<lambda>s. (Tool, snd s)) steps"

text \<open>
  Modelled from the spec: the loop. Text ends the invocation in \<open>Done\<close> and is appended to
  the history as the assistant's turn. Tool-call requests are dispatched, their results
  appended as tool turns, and the model is asked again, unless \<open>max_iterations\<close> round
  trips have been made already: then the invocation is aborted. \<open>trips\<close> is the number of
  round trips made so far.
\<close>

function orchestrate :: "orchestration \<Rightarrow> nat \<Rightarrow> nat \<Rightarrow> turn list \<Rightarrow> step list \<Rightarrow> run" where
  "orchestrate oc trips n hist steps =
     (case await_response oc n hist of
        (Inl a, n1) \<Rightarrow> \<lparr>outcome = Inl a, history = hist, round_trips = trips, model_calls = n1\<rparr>
      | (Inr (FinalAnswer t), n1) \<Rightarrow>
          \<lparr>outcome = Inr \<lparr>output' = t, intermediate_steps = steps\<rparr>,
           history = hist @ [(Assistant, t)], round_trips = trips, model_calls = n1\<rparr>
      | (Inr (Unparseable t), n1) \<Rightarrow>
          \<lparr>outcome = Inl (ModelParseFailure t), history = hist, round_trips = trips, model_calls = n1\<rparr>
      | (Inr (ToolCalls calls), n1) \<Rightarrow>
          if max_iterations \<le> trips then
            \<lparr>outcome = Inl (BudgetExceeded ''iteration limit''), history = hist,
             round_trips = trips, model_calls = n1\<rparr>
          else
            (case dispatch_all (dispatch oc) calls of
               (completed, Some e) \<Rightarrow>
                 \<lparr>outcome = Inl (DispatchError (str_exc e)), history = hist @ tool_turns completed,
                  round_trips = trips, model_calls = n1\<rparr>
             | (completed, None) \<Rightarrow>
                 orchestrate oc (Suc trips) n1 (hist @ tool_turns completed) (steps @ completed)))"
  by pat_completeness auto
termination
  by (relation "measure (\<lambda>(oc, trips, n, hist, steps). max_iterations - trips)") auto

text \<open>
  Modelled from the spec: one invocation. The prompt is the session history followed by the
  new user message, which is thereby appended to the history.
\<close>

definition run_chat :: "orchestration \<Rightarrow> turn list \<Rightarrow> string \<Rightarrow> run" where
  "run_chat oc mem msg = orchestrate oc 0 0 (mem @ [(User, msg)]) []"

text \<open>
  Modelled from the spec: the executor \<^verbatim>\<open>chat\<close> calls. An aborted invocation raises; the
  history the invocation leaves is the agent's memory from then on.
\<close>

definition agent_executor :: "orchestration \<Rightarrow> executor" where
  "agent_executor oc mem msg =
     (case outcome (run_chat oc mem msg) of
        Inl a \<Rightarrow> (Inl (abort_exception a), history (run_chat oc mem msg))
      | Inr out \<Rightarrow> (Inr out, history (run_chat oc mem msg)))"

subsection \<open>Small instances of the orchestrator\<close>

text \<open>
  A model that requests a status lookup on every response; a model that answers with the
  first user message of the history it is shown; registries that answer every dispatch.
\<close>

definition status_request :: AgentAction where
  "status_request = \<lparr>tool = ''get_shipment_status'',
                     tool_input = PyDict [(''tracking_number'', PyStr ''TRACK1'')]\<rparr>"

definition oc_always_tool :: orchestration where
  "oc_always_tool = \<lparr>model_call = (\<lambda>n prompt. Inr (ToolCalls [status_request])),
                     elapsed = (\<lambda>n. n),
                     dispatch = (\<lambda>a. Inr ''Shipment TRACK1 not found.'')\<rparr>"

definition first_user_message :: "turn list \<Rightarrow> string" where
  "first_user_message prompt = (case filter (\<lambda>t. fst t = User) prompt of [] \<Rightarrow> [] | t # _ \<Rightarrow> snd t)"

definition oc_echo :: orchestration where
  "oc_echo = \<lparr>model_call = (\<lambda>n prompt. Inr (FinalAnswer (''You first told me: '' @ first_user_message prompt))),
              elapsed = (\<lambda>n. n),
              dispatch = (\<lambda>a. Inr ''ok'')\<rparr>"


text \<open>
  A model that looks the shipment up once and then answers; an executor whose model call
  is down; the application before any request, and after session \<open>A\<close> has sent one message.
\<close>

definition oc_lookup :: orchestration where
  "oc_lookup = \<lparr>model_call = (\<lambda>n prompt. if n = 1 then Inr (ToolCalls [status_request])
                                            else Inr (FinalAnswer ''TRACK1 is not in the system.'')),
                elapsed = (\<lambda>n. n),
                dispatch = (\<lambda>a. Inr ''Shipment TRACK1 not found.'')\<rparr>"

definition ex_model_down :: executor where
  "ex_model_down mem msg = (Inl (PyException ''model unavailable''), mem)"

definition app_start :: app_state where
  "app_start = \<lparr>ai_agent = None\<rparr>"

definition app_after_A :: app_state where
  "app_after_A = snd (chat_with_ai (agent_executor oc_echo) app_start ''my parcel is TRACK1'' (Some ''A''))"

section \<open>Verified properties\<close>

subsection \<open>Tool handlers never raise\<close>

lemma try_except_total: "(\<And>e. \<exists>s. h e = Inr s) \<Longrightarrow> \<exists>s. try_except b h = Inr s"
  by (cases b) auto

text \<open>
  Claim C3. For every registered tool and any arguments of its declared types, whatever the
  state of the store (records missing, store unavailable, a status the backend rejects, a
  warehouse without utilization), the handler returns a string: every fault raised inside
  the handler is caught by its \<^verbatim>\<open>except Exception\<close> and replaced by a descriptive string,
  so nothing is raised past the registry.
\<close>

theorem tool_handlers_never_raise: "\<exists>s. invoke rt db call = Inr s"
  by (cases call)
     (simp_all add: get_shipment_status_def calculate_shipping_cost_def find_nearest_warehouse_def
        estimate_delivery_time_def search_shipments_def try_except_total)

text \<open>What the handlers return when the store is unavailable, and when the record is missing.\<close>

lemma unavailable_store_is_reported:
  assumes "unavailable db = Some m"
  shows "get_shipment_status db tn = Inr (''Unable to retrieve status for '' @ tn @ ''. Please try again.'')"
    and "find_nearest_warehouse rt db location = Inr ''Unable to find nearby warehouses. Please try again.''"
    and "estimate_delivery_time rt db tn = Inr ''Unable to estimate delivery time. Please try again.''"
    and "search_shipments db st orig dest = Inr ''Unable to search shipments. Please try again.''"
  using assms
  by (simp_all add: get_shipment_status_def find_nearest_warehouse_def estimate_delivery_time_def
        search_shipments_def get_shipment_status_match_def find_nearest_warehouse_match_def
        search_shipments_match_def session_def)

lemma missing_shipment_is_reported:
  assumes "unavailable db = None" and "find (\<lambda>s. tracking_number s = upper tn) (shipments db) = None"
  shows "get_shipment_status db tn
           = Inr (''Shipment with tracking number '' @ tn
                  @ '' not found. Please verify the tracking number and try again.'')"
    and "estimate_delivery_time rt db tn = Inr (''Shipment '' @ tn @ '' not found.'')"
  using assms
  by (simp_all add: get_shipment_status_def estimate_delivery_time_def get_shipment_status_match_def
        session_def)

subsection \<open>Lookups do not depend on letter case\<close>

lemma of_char_to_lower:
  "(of_char (to_lower c) :: nat) =
     (if 65 \<le> (of_char c :: nat) \<and> (of_char c :: nat) \<le> 90 then of_char c + 32 else of_char c)"
  by (simp add: to_lower_def Let_def)

lemma to_upper_to_lower: "to_upper (to_lower c) = to_upper c"
proof (cases "65 \<le> (of_char c :: nat) \<and> (of_char c :: nat) \<le> 90")
  case True
  then have "(of_char (to_lower c) :: nat) = of_char c + 32"
    by (simp add: of_char_to_lower)
  with True have "to_upper (to_lower c) = char_of ((of_char c :: nat))"
    by (simp add: to_upper_def Let_def)
  moreover from True have "to_upper c = c"
    by (simp add: to_upper_def Let_def)
  ultimately show ?thesis by simp
next
  case False
  then have "to_lower c = c"
    by (auto simp add: to_lower_def Let_def)
  then show ?thesis by simp
qed

lemma upper_lower: "upper (lower s) = upper s"
  by (simp add: upper_def lower_def to_upper_to_lower)

lemma lower_eq_upper_eq: "lower a = lower b \<Longrightarrow> upper a = upper b"
  by (metis upper_lower)

lemma lower_eq_nil: "lower a = lower b \<Longrightarrow> (a = []) = (b = [])"
  by (metis lower_def map_is_Nil_conv)

lemma ilike_cong:
  "lower a = lower b \<Longrightarrow> ilike col (''%'' @ a @ ''%'') = ilike col (''%'' @ b @ ''%'')"
  by (simp add: ilike_def lower_def)

text \<open>
  Claim C9. Two arguments that differ only in the case of their ASCII letters (they have
  the same lower-case form) select the same records: the shipment found by tracking number,
  the warehouses found by location, and the shipments found by origin or by destination.
\<close>

theorem tool_lookups_ignore_case:
  assumes "lower a = lower b"
  shows "get_shipment_status_match db a = get_shipment_status_match db b
       \<and> find_nearest_warehouse_match db a = find_nearest_warehouse_match db b
       \<and> search_shipments_match db st (Some a) dest = search_shipments_match db st (Some b) dest
       \<and> search_shipments_match db st orig (Some a) = search_shipments_match db st orig (Some b)"
proof -
  have u: "upper a = upper b"
    using assms by (rule lower_eq_upper_eq)
  have n: "(a = []) = (b = [])"
    using assms by (rule lower_eq_nil)
  have l: "\<And>col. ilike col (''%'' @ a @ ''%'') = ilike col (''%'' @ b @ ''%'')"
    using assms by (rule ilike_cong)
  have 1: "get_shipment_status_match db a = get_shipment_status_match db b"
    by (simp add: get_shipment_status_match_def u)
  have 2: "find_nearest_warehouse_match db a = find_nearest_warehouse_match db b"
    unfolding find_nearest_warehouse_match_def l ..
  have 3: "search_shipments_match db st (Some a) dest = search_shipments_match db st (Some b) dest"
    unfolding search_shipments_match_def by (simp only: truthy.simps option.sel l n)
  have 4: "search_shipments_match db st orig (Some a) = search_shipments_match db st orig (Some b)"
    unfolding search_shipments_match_def by (simp only: truthy.simps option.sel l n)
  from 1 2 3 4 show ?thesis by blast
qed

text \<open>In the small store these lookups do find the records.\<close>

lemma lookups_find_records:
  "get_shipment_status_match db0 ''track1'' = Inr (Some (hd (shipments db0)))
   \<and> find_nearest_warehouse_match db0 ''CHICAGO'' = Inr (warehouses db0)
   \<and> search_shipments_match db0 None (Some ''CHICAGO'') None = Inr (shipments db0)
   \<and> search_shipments_match db0 None None (Some ''boston'') = Inr (shipments db0)"
  by code_simp

theorem tool_lookups_ignore_case_witness:
  "lower ''track1'' = lower ''TRACK1''
   \<and> get_shipment_status_match db0 ''track1'' = get_shipment_status_match db0 ''TRACK1''
   \<and> lower ''chicago'' = lower ''CHICAGO''
   \<and> find_nearest_warehouse_match db0 ''chicago'' = find_nearest_warehouse_match db0 ''CHICAGO''
   \<and> search_shipments_match db0 None (Some ''chicago'') None
       = search_shipments_match db0 None (Some ''CHICAGO'') None
   \<and> lower ''boston'' = lower ''BOSTON''
   \<and> search_shipments_match db0 None None (Some ''boston'')
       = search_shipments_match db0 None None (Some ''BOSTON'')"
proof -
  have t: "lower ''track1'' = lower ''TRACK1''"
    by code_simp
  have c: "lower ''chicago'' = lower ''CHICAGO''"
    by code_simp
  have b: "lower ''boston'' = lower ''BOSTON''"
    by code_simp
  show ?thesis
    using t c b
      tool_lookups_ignore_case [OF t, of db0 None None None]
      tool_lookups_ignore_case [OF c, of db0 None None None]
      tool_lookups_ignore_case [OF b, of db0 None None None]
    by simp
qed

subsection \<open>Retrieval operations never raise\<close>

text \<open>
  Claim C10. \<^verbatim>\<open>search\<close> and \<^verbatim>\<open>simple_search\<close> return a value for every query and every
  \<open>k\<close>. When the embedding call fails or the index query fails, \<^verbatim>\<open>simple_search\<close> returns
  the empty list and \<^verbatim>\<open>search\<close> returns the dictionary with the fixed apology answer, an
  empty results list and the error description; when the model call of the answer chain
  fails, \<^verbatim>\<open>search\<close> returns that dictionary as well.
\<close>

theorem retrieval_never_raises:
  "(\<exists>r. search sv rag q k = Inr r) \<and> (\<exists>r. simple_search sv rag q k = Inr r)
   \<and> (embed sv q = Inl e \<longrightarrow>
         search sv rag q k = Inr (search_error_reply q e)
         \<and> simple_search sv rag q k = Inr (PyList []))
   \<and> (embed sv q = Inr v \<and> store_fault (vector_store rag) = Some m \<longrightarrow>
         search sv rag q k = Inr (search_error_reply q (PyException m))
         \<and> simple_search sv rag q k = Inr (PyList []))
   \<and> (embed sv q = Inr v \<and> store_fault (vector_store rag) = None
       \<and> (\<exists>ds. similarity_search sv (vector_store rag) q 4 = Inr ds \<and> llm sv q ds = Inl e) \<longrightarrow>
         search sv rag q k = Inr (search_error_reply q e))"
  by (auto simp add: search_def simple_search_def try_except_total similarity_search_def
        qa_chain_def search_error_reply_def)

theorem retrieval_never_raises_witness:
  "embed sv_embed_down ''safety'' = Inl (PyException ''embedding service unavailable'')
   \<and> search sv_embed_down rag0 ''safety'' 3
       = Inr (search_error_reply ''safety'' (PyException ''embedding service unavailable''))
   \<and> simple_search sv_embed_down rag0 ''safety'' 3 = Inr (PyList [])
   \<and> store_fault (vector_store rag_index_down) = Some ''index unavailable''
   \<and> search sv0 rag_index_down ''safety'' 3
       = Inr (search_error_reply ''safety'' (PyException ''index unavailable''))
   \<and> simple_search sv0 rag_index_down ''safety'' 3 = Inr (PyList [])
   \<and> search sv_llm_down rag0 ''safety'' 3
       = Inr (search_error_reply ''safety'' (PyException ''model unavailable''))"
proof -
  have e: "embed sv_embed_down ''safety'' = Inl (PyException ''embedding service unavailable'')"
    by (simp add: sv_embed_down_def)
  have i: "embed sv0 ''safety'' = Inr 6 \<and> store_fault (vector_store rag_index_down) = Some ''index unavailable''"
    by (simp add: sv0_def rag_index_down_def)
  have l: "embed sv_llm_down ''safety'' = Inr 6 \<and> store_fault (vector_store rag0) = None
           \<and> (\<exists>ds. similarity_search sv_llm_down (vector_store rag0) ''safety'' 4 = Inr ds
                    \<and> llm sv_llm_down ''safety'' ds = Inl (PyException ''model unavailable''))"
    by (simp add: sv_llm_down_def sv0_def rag0_def similarity_search_def)
  show ?thesis
    using e i l
      retrieval_never_raises [of sv_embed_down rag0 "''safety''" 3 "PyException ''embedding service unavailable''"]
      retrieval_never_raises [of sv0 rag_index_down "''safety''" 3 _ 6 "''index unavailable''"]
      retrieval_never_raises [of sv_llm_down rag0 "''safety''" 3 "PyException ''model unavailable''" 6]
    by simp
qed

subsection \<open>The number of results of \<^verbatim>\<open>search\<close>\<close>

text \<open>
  The rows \<^verbatim>\<open>search\<close> returns are the source documents of the answer chain, whose
  retriever is fixed at four chunks; the chunks retrieved for \<^verbatim>\<open>top_k\<close> are not used.
\<close>

lemma search_ignores_top_k:
  assumes "similarity_search sv (vector_store rag) q k = Inr ds"
    and "similarity_search sv (vector_store rag) q k' = Inr ds'"
  shows "search sv rag q k = search sv rag q k'"
  using assms by (simp add: search_def)

lemma similarity_search_length: "similarity_search sv vs q k = Inr ds \<Longrightarrow> length ds \<le> k"
  by (cases "embed sv q") (auto simp: similarity_search_def split: option.splits)

lemma search_returns_at_most_four: "length (rows_of (search sv rag q k)) \<le> 4"
proof (cases "similarity_search sv (vector_store rag) q k")
  case (Inl e)
  then show ?thesis
    by (simp add: search_def)
next
  case k: (Inr ds)
  show ?thesis
  proof (cases "similarity_search sv (vector_store rag) q 4")
    case (Inl e)
    with k show ?thesis
      by (simp add: search_def qa_chain_def)
  next
    case four: (Inr ds4)
    then have "length ds4 \<le> 4"
      by (rule similarity_search_length)
    with k four show ?thesis
      by (cases "llm sv q ds4") (simp_all add: search_def qa_chain_def)
  qed
qed

lemma simple_search_returns_at_most_k: "length (rows_of (simple_search sv rag q k)) \<le> k"
proof (cases "similarity_search sv (vector_store rag) q k")
  case (Inl e)
  then show ?thesis
    by (simp add: simple_search_def)
next
  case (Inr ds)
  then have "length ds \<le> k"
    by (rule similarity_search_length)
  with Inr show ?thesis
    by (simp add: simple_search_def)
qed

lemma rag0_is_fallback_corpus:
  "LogisticsRAG_init sv0 ''./docs'' (Inr empty_store) fs_corrupt = (Inr rag0, fs_corrupt)"
  by code_simp

text \<open>
  Claim C5, at the input where it fails. Over the two built-in sample documents,
  \<^verbatim>\<open>search("safety procedures", top_k=1)\<close> returns two rows, while
  \<^verbatim>\<open>simple_search("safety procedures", top_k=1)\<close> returns the one nearest chunk.
\<close>

theorem search_top_k_one_returns_two_rows:
  "length (rows_of (search sv0 rag0 ''safety procedures'' 1)) = 2
   \<and> length (rows_of (simple_search sv0 rag0 ''safety procedures'' 1)) = 1"
  by code_simp

subsection \<open>Start-up with a missing or empty documents directory\<close>

lemma boundary_bounds: "boundary w sep = Some e \<Longrightarrow> chunk_overlap < e \<and> e \<le> length w"
proof -
  assume a: "boundary w sep = Some e"
  let ?cands = "filter (\<lambda>e. ends_with (take e w) sep) (rev [Suc chunk_overlap ..< Suc (length w)])"
  from a obtain es where "?cands = e # es"
    by (auto simp: boundary_def split: list.splits)
  then have "e \<in> set ?cands" by simp
  then show ?thesis by auto
qed

lemma first_boundary_bounds:
  "chunk_overlap < length w \<Longrightarrow> chunk_overlap < first_boundary w seps \<and> first_boundary w seps \<le> length w"
  by (induction seps) (auto split: option.splits dest: boundary_bounds)

lemma window_end_bounds:
  "chunk_size < length t \<Longrightarrow> chunk_overlap < window_end t \<and> window_end t \<le> chunk_size"
  using first_boundary_bounds [of "take chunk_size t" separators]
  by (simp add: window_end_def chunk_size_def chunk_overlap_def)

declare split_text.simps [simp del]

lemma split_text_short: "length t \<le> chunk_size \<Longrightarrow> split_text t = (if t = [] then [] else [t])"
  by (subst split_text.simps) simp

lemma split_text_long:
  "chunk_size < length t \<Longrightarrow>
     split_text t = take (window_end t) t # split_text (drop (window_end t - chunk_overlap) t)"
  by (subst split_text.simps) simp

lemma split_text_nonempty: "t \<noteq> [] \<Longrightarrow> split_text t \<noteq> []"
  by (cases "length t \<le> chunk_size") (simp_all add: split_text_short split_text_long)

lemma split_documents_nonempty:
  "page_content d \<noteq> [] \<Longrightarrow> split_documents (d # ds) \<noteq> []"
  by (simp add: split_documents_def split_text_nonempty)

lemma sample_content_nonempty: "sample_content \<noteq> []"
  by (simp add: sample_content_def)

lemma get_sample_documents_nonempty: "split_documents get_sample_documents \<noteq> []"
  unfolding get_sample_documents_def by (rule split_documents_nonempty) simp

lemma embed_all_ok:
  "\<forall>t. \<exists>v. embed sv t = Inr v \<Longrightarrow> \<exists>c. embed_all sv ds = Inr c \<and> map fst c = ds"
proof (induction ds)
  case Nil
  then show ?case by simp
next
  case (Cons d ds)
  then obtain c where c: "embed_all sv ds = Inr c" "map fst c = ds"
    by blast
  from Cons.prems obtain v where "embed sv (page_content d) = Inr v"
    by blast
  with c show ?case by simp
qed

lemma from_documents_ok:
  "\<forall>t. \<exists>v. embed sv t = Inr v \<Longrightarrow> ds \<noteq> [] \<Longrightarrow>
     \<exists>vs. from_documents sv ds = Inr vs \<and> map fst (collection vs) = ds \<and> store_fault vs = None"
  using embed_all_ok [of sv ds] by (auto simp: from_documents_def)

lemma ends_with_append:
  "length sep \<le> length b \<Longrightarrow> ends_with (a @ b) sep = ends_with b sep"
  by (simp add: ends_with_def)

lemma manual_is_txt:
  "ends_with (dir @ ''/operations_manual.txt'') ''.txt''"
  "\<not> ends_with (dir @ ''/operations_manual.txt'') ''.pdf''"
  by (simp_all add: ends_with_append) (simp_all add: ends_with_def)

lemma fallback_nonempty:
  "split_documents (if b then [sample_manual dir] else get_sample_documents) \<noteq> []"
  by (simp add: get_sample_documents_nonempty split_documents_nonempty sample_manual_def
        sample_content_nonempty)

text \<open>
  The two paths that do fall back. When the directory is missing, the sample manual is
  written and loaded; when a loader raises, the two sample documents are taken. In both
  the load succeeds with the chunks of the built-in documents, provided the manual can be
  written and the embedding call works.
\<close>

lemma load_fallback:
  assumes emb: "\<forall>t. \<exists>v. embed sv t = Inr v"
    and wr: "write_fault fs = None"
    and d: "docs_dir fs = Missing
            \<or> and_then (directory_load (docs_dir fs) ''.pdf'') (\<lambda>pdf.
                 and_then (directory_load (docs_dir fs) ''.txt'') (\<lambda>txt. Inr (pdf @ txt))) = Inl e"
  shows "\<exists>vs fs1. load_documents_to_vector_store sv dir fs = (Inr vs, fs1)
           \<and> store_fault vs = None
           \<and> map fst (collection vs)
               = split_documents (if docs_dir fs = Missing then [sample_manual dir] else get_sample_documents)"
proof (cases "docs_dir fs = Missing")
  case True
  obtain vs where "from_documents sv (split_documents [sample_manual dir]) = Inr vs"
    "map fst (collection vs) = split_documents [sample_manual dir]" "store_fault vs = None"
    using from_documents_ok [OF emb fallback_nonempty [of True dir]] by auto
  with True wr show ?thesis
    by (simp add: load_documents_to_vector_store_def create_sample_documents_def manual_is_txt)
next
  case False
  with d have na: "and_then (directory_load (docs_dir fs) ''.pdf'') (\<lambda>pdf.
                     and_then (directory_load (docs_dir fs) ''.txt'') (\<lambda>txt. Inr (pdf @ txt))) = Inl e"
    by simp
  obtain vs where "from_documents sv (split_documents get_sample_documents) = Inr vs"
    "map fst (collection vs) = split_documents get_sample_documents" "store_fault vs = None"
    using from_documents_ok [OF emb get_sample_documents_nonempty] by blast
  with False na show ?thesis
    by (simp add: load_documents_to_vector_store_def)
qed

lemma sibling_paths_fall_back:
  assumes emb: "\<forall>t. \<exists>v. embed sv t = Inr v"
    and wr: "write_fault fs = None"
    and d: "docs_dir fs = Missing
            \<or> and_then (directory_load (docs_dir fs) ''.pdf'') (\<lambda>pdf.
                 and_then (directory_load (docs_dir fs) ''.txt'') (\<lambda>txt. Inr (pdf @ txt))) = Inl e"
  shows "\<exists>rag. fst (LogisticsRAG_init sv dir persisted fs) = Inr rag
           \<and> collection (vector_store rag) \<noteq> []
           \<and> ((\<forall>vs n. persisted = Inr vs \<longrightarrow> count vs \<noteq> Inr (Suc n)) \<longrightarrow>
                map fst (collection (vector_store rag))
                  = split_documents (if docs_dir fs = Missing then [sample_manual dir]
                                     else get_sample_documents))"
proof -
  obtain vs fs1 where l: "load_documents_to_vector_store sv dir fs = (Inr vs, fs1)"
    and c: "map fst (collection vs)
              = split_documents (if docs_dir fs = Missing then [sample_manual dir] else get_sample_documents)"
    using load_fallback [OF emb wr d] by blast
  from c have ne: "collection vs \<noteq> []"
    using fallback_nonempty [of "docs_dir fs = Missing" dir] by auto
  show ?thesis
  proof (cases persisted)
    case (Inl e)
    with l c ne show ?thesis
      by (simp add: LogisticsRAG_init_def initialize_vector_store_def)
  next
    case pv: (Inr pv)
    show ?thesis
    proof (cases "count pv")
      case (Inl e)
      with pv l c ne show ?thesis
        by (simp add: LogisticsRAG_init_def initialize_vector_store_def)
    next
      case n: (Inr n)
      show ?thesis
      proof (cases n)
        case 0
        with pv n l c ne show ?thesis
          by (simp add: LogisticsRAG_init_def initialize_vector_store_def)
      next
        case (Suc k)
        with n have "collection pv \<noteq> []"
          by (auto simp: count_def split: option.splits)
        with pv n Suc show ?thesis
          by (simp add: LogisticsRAG_init_def initialize_vector_store_def)
      qed
    qed
  qed
qed

lemma missing_directory_example:
  "map fst (collection (vector_store (projr (fst (LogisticsRAG_init sv0 ''./docs'' (Inr empty_store) fs_missing)))))
     = split_documents [sample_manual ''./docs'']"
proof -
  have emb: "\<forall>t. \<exists>v. embed sv0 t = Inr v"
    by (simp add: sv0_def)
  have wr: "write_fault fs_missing = None"
    by (simp add: fs_missing_def)
  have d: "docs_dir fs_missing = Missing
           \<or> and_then (directory_load (docs_dir fs_missing) ''.pdf'') (\<lambda>pdf.
                and_then (directory_load (docs_dir fs_missing) ''.txt'') (\<lambda>txt. Inr (pdf @ txt)))
              = Inl (PyException [])"
    by (simp add: fs_missing_def)
  have p: "\<forall>vs n. (Inr empty_store :: py_exception + nat Chroma) = Inr vs \<longrightarrow> count vs \<noteq> Inr (Suc n)"
    by (simp add: empty_store_def count_def)
  show ?thesis
    using p sibling_paths_fall_back [OF emb wr d, of "''./docs''" "Inr empty_store"]
    by (auto simp add: fs_missing_def)
qed

text \<open>
  The path that does not. A directory that exists and holds no \<^verbatim>\<open>.pdf\<close> or \<^verbatim>\<open>.txt\<close> file
  makes neither loader raise, so no built-in document is taken: the load calls
  \<^verbatim>\<open>Chroma.from_documents\<close> with no chunk and raises, for every choice of the services.
\<close>

lemma load_empty_directory:
  "docs_dir fs = Listing [] \<Longrightarrow>
     load_documents_to_vector_store sv dir fs
       = (Inl (PyException ''Expected a non-empty list of documents''), fs)"
  by (simp add: load_documents_to_vector_store_def split_documents_def from_documents_def)

lemma empty_directory_never_falls_back:
  assumes "docs_dir fs = Listing []"
    and "\<forall>vs n. persisted = Inr vs \<longrightarrow> count vs \<noteq> Inr (Suc n)"
  shows "LogisticsRAG_init sv dir persisted fs
           = (Inl (PyException ''Expected a non-empty list of documents''), fs)"
proof (cases persisted)
  case (Inl e)
  with assms(1) show ?thesis
    by (simp add: LogisticsRAG_init_def initialize_vector_store_def load_empty_directory)
next
  case pv: (Inr pv)
  show ?thesis
  proof (cases "count pv")
    case (Inl e)
    with pv assms(1) show ?thesis
      by (simp add: LogisticsRAG_init_def initialize_vector_store_def load_empty_directory)
  next
    case (Inr n)
    with pv assms(2) have "n = 0"
      by (cases n) auto
    with pv Inr assms(1) show ?thesis
      by (simp add: LogisticsRAG_init_def initialize_vector_store_def load_empty_directory)
  qed
qed

text \<open>
  Claim C7, at the input where it fails. The documents directory exists and is empty, and
  no chunk was persisted before: start-up does not succeed with a built-in corpus, it
  raises, in the \<^verbatim>\<open>try\<close> and again in the retry of the \<^verbatim>\<open>except\<close>.
\<close>

theorem empty_directory_fails_startup:
  "docs_dir fs_empty = Listing []
   \<and> fst (load_documents_to_vector_store sv0 ''./docs'' fs_empty)
       = Inl (PyException ''Expected a non-empty list of documents'')
   \<and> fst (LogisticsRAG_init sv0 ''./docs'' (Inr empty_store) fs_empty)
       = Inl (PyException ''Expected a non-empty list of documents'')"
  by code_simp

subsection \<open>Splitting is lossless\<close>

lemma split_text_head:
  "chunk_overlap < length t \<Longrightarrow> \<exists>c cs. split_text t = c # cs \<and> chunk_overlap < length c"
proof (cases "length t \<le> chunk_size")
  case True
  assume "chunk_overlap < length t"
  with True show ?thesis
    by (auto simp: split_text_short)
next
  case False
  then have "chunk_overlap < window_end t \<and> window_end t \<le> chunk_size"
    using window_end_bounds [of t] by simp
  with False show ?thesis
    by (simp add: split_text_long)
qed

lemma reconstruct_drop:
  "chunk_overlap \<le> length c \<Longrightarrow>
     concat (map (drop chunk_overlap) (c # cs)) = drop chunk_overlap (reconstruct (c # cs))"
  by simp

lemma reconstruct_split_text: "reconstruct (split_text t) = t"
proof (induction t rule: split_text.induct)
  case (1 t)
  show ?case
  proof (cases "length t \<le> chunk_size")
    case True
    then show ?thesis
      by (simp add: split_text_short)
  next
    case False
    let ?e = "window_end t"
    let ?r = "drop (?e - chunk_overlap) t"
    from False have b: "chunk_overlap < ?e" "?e \<le> chunk_size"
      using window_end_bounds [of t] by simp_all
    from False b have "chunk_overlap < length ?r"
      by simp
    then obtain c cs where s: "split_text ?r = c # cs" and c: "chunk_overlap < length c"
      using split_text_head by blast
    have ih: "reconstruct (split_text ?r) = ?r"
      using "1.IH" False by simp
    have "concat (map (drop chunk_overlap) (split_text ?r))
            = drop chunk_overlap (reconstruct (split_text ?r))"
      unfolding s using c by (intro reconstruct_drop) simp
    also have "\<dots> = drop chunk_overlap ?r"
      by (simp only: ih)
    also have "\<dots> = drop ?e t"
      using b by simp
    finally have "concat (map (drop chunk_overlap) (split_text ?r)) = drop ?e t" .
    with False show ?thesis
      by (simp add: split_text_long)
  qed
qed

lemma overlapping_split_text: "overlapping (split_text t)"
proof (induction t rule: split_text.induct)
  case (1 t)
  show ?case
  proof (cases "length t \<le> chunk_size")
    case True
    then show ?thesis
      by (simp add: split_text_short)
  next
    case False
    let ?e = "window_end t"
    let ?r = "drop (?e - chunk_overlap) t"
    from False have b: "chunk_overlap < ?e" "?e \<le> chunk_size"
      using window_end_bounds [of t] by simp_all
    from False b have "chunk_overlap < length ?r"
      by simp
    then obtain c cs where s: "split_text ?r = c # cs" and c: "chunk_overlap < length c"
      using split_text_head by blast
    have ih: "overlapping (split_text ?r)"
      using "1.IH" False by simp
    have "reconstruct (split_text ?r) = ?r"
      by (rule reconstruct_split_text)
    then have "c @ concat (map (drop chunk_overlap) cs) = ?r"
      unfolding s by simp
    then have "take chunk_overlap (c @ concat (map (drop chunk_overlap) cs)) = take chunk_overlap ?r"
      by simp
    with c have tc: "take chunk_overlap c = take chunk_overlap ?r"
      by simp
    have la: "length (take ?e t) = ?e"
      using False b by simp
    have "drop (?e - chunk_overlap) (take ?e t) = take chunk_overlap ?r"
      using b by (simp add: drop_take)
    with tc la have "take chunk_overlap c = drop (length (take ?e t) - chunk_overlap) (take ?e t)"
      by simp
    moreover have "chunk_overlap \<le> length (take ?e t)"
      using la b by simp
    moreover have "overlapping (c # cs)"
      using ih s by simp
    ultimately have "overlapping (take ?e t # c # cs)"
      using c by simp
    with False s show ?thesis
      by (simp add: split_text_long)
  qed
qed

lemma split_text_chunk_size: "c \<in> set (split_text t) \<Longrightarrow> length c \<le> chunk_size"
proof (induction t rule: split_text.induct)
  case (1 t)
  show ?case
  proof (cases "length t \<le> chunk_size")
    case True
    with "1.prems" show ?thesis
      by (auto simp: split_text_short split: if_splits)
  next
    case False
    then have b: "window_end t \<le> chunk_size"
      using window_end_bounds [of t] by simp
    from "1.prems" False
    have "c = take (window_end t) t \<or> c \<in> set (split_text (drop (window_end t - chunk_overlap) t))"
      by (simp add: split_text_long)
    then show ?thesis
    proof
      assume "c = take (window_end t) t"
      with b show ?thesis by simp
    next
      assume "c \<in> set (split_text (drop (window_end t - chunk_overlap) t))"
      with "1.IH" False show ?thesis by simp
    qed
  qed
qed

lemma split_text_several: "chunk_size < length t \<Longrightarrow> 1 < length (split_text t)"
proof -
  assume l: "chunk_size < length t"
  then have "window_end t \<le> chunk_size"
    using window_end_bounds [of t] by simp
  with l have "drop (window_end t - chunk_overlap) t \<noteq> []"
    by simp
  then have "split_text (drop (window_end t - chunk_overlap) t) \<noteq> []"
    by (rule split_text_nonempty)
  with l show ?thesis
    by (simp add: split_text_long)
qed

text \<open>
  Claim C8. A document of 2400 characters, split with window size 1000 and overlap 200,
  yields several chunks of at most 1000 characters, each repeating the last 200 characters
  of the chunk before it; the first chunk followed by the later chunks without their first
  200 characters is the document again.
\<close>

theorem split_reconstructs_document:
  assumes "length doc = 2400"
  shows "reconstruct (split_text doc) = doc
         \<and> overlapping (split_text doc)
         \<and> 1 < length (split_text doc)
         \<and> list_all (\<lambda>c. length c \<le> chunk_size) (split_text doc)"
proof -
  from assms have "chunk_size < length doc"
    by (simp add: chunk_size_def)
  then have "1 < length (split_text doc)"
    by (rule split_text_several)
  then show ?thesis
    by (simp add: reconstruct_split_text overlapping_split_text split_text_chunk_size list_all_iff)
qed

theorem split_reconstructs_document_witness:
  "length doc2400 = 2400
   \<and> reconstruct (split_text doc2400) = doc2400
   \<and> overlapping (split_text doc2400)
   \<and> 1 < length (split_text doc2400)
   \<and> list_all (\<lambda>c. length c \<le> chunk_size) (split_text doc2400)"
proof -
  have h: "length doc2400 = 2400"
    by (simp add: doc2400_def length_concat sum_list_replicate)
  show ?thesis
    using h split_reconstructs_document [OF h] by simp
qed

subsection \<open>The orchestration loop\<close>

declare orchestrate.simps [simp del]

lemma await_response_calls: "await_response oc n h = (r, n1) \<Longrightarrow> n < n1 \<and> n1 \<le> n + 2"
  by (auto simp: await_response_def split: sum.splits if_splits model_reply.splits)






lemma tool_turns_no_user: "list_all (\<lambda>t. fst t \<noteq> User) (tool_turns fin)"
  by (simp add: tool_turns_def list_all_iff)

lemma orchestrate_history:
  "\<exists>ts. history (orchestrate oc trips n hist steps) = hist @ ts \<and> list_all (\<lambda>t. fst t \<noteq> User) ts"
proof (induction oc trips n hist steps rule: orchestrate.induct)
  case (1 oc trips n hist steps)
  obtain r n1 where r: "await_response oc n hist = (r, n1)"
    by (cases "await_response oc n hist")
  show ?case
  proof (cases r)
    case (Inl a)
    with r show ?thesis
      by (subst orchestrate.simps) simp
  next
    case (Inr reply)
    show ?thesis
    proof (cases reply)
      case (FinalAnswer t)
      with r Inr show ?thesis
        by (subst orchestrate.simps) simp
    next
      case (Unparseable t)
      with r Inr show ?thesis
        by (subst orchestrate.simps) simp
    next
      case (ToolCalls calls)
      show ?thesis
      proof (cases "max_iterations \<le> trips")
        case True
        with r Inr ToolCalls show ?thesis
          by (subst orchestrate.simps) simp
      next
        case False
        obtain fin err where d: "dispatch_all (dispatch oc) calls = (fin, err)"
          by (cases "dispatch_all (dispatch oc) calls")
        show ?thesis
        proof (cases err)
          case (Some e)
          with r Inr ToolCalls False d show ?thesis
            by (subst orchestrate.simps) (simp add: tool_turns_no_user)
        next
          case None
          from "1.IH" [OF r [symmetric] Inr ToolCalls False d [symmetric] None]
          obtain ts where ts: "history (orchestrate oc (Suc trips) n1 (hist @ tool_turns fin) (steps @ fin))
                                 = (hist @ tool_turns fin) @ ts" "list_all (\<lambda>t. fst t \<noteq> User) ts"
            by blast
          have "list_all (\<lambda>t. fst t \<noteq> User) (tool_turns fin @ ts)"
            using ts(2) tool_turns_no_user [of fin] by simp
          with ts(1) r Inr ToolCalls False d None show ?thesis
            by (subst orchestrate.simps) simp
        qed
      qed
    qed
  qed
qed

lemma orchestrate_done:
  "outcome (orchestrate oc trips n hist steps) = Inr out \<Longrightarrow>
     \<exists>new. intermediate_steps out = steps @ new
           \<and> history (orchestrate oc trips n hist steps) = hist @ tool_turns new @ [(Assistant, output' out)]"
proof (induction oc trips n hist steps arbitrary: out rule: orchestrate.induct)
  case (1 oc trips n hist steps)
  obtain r n1 where r: "await_response oc n hist = (r, n1)"
    by (cases "await_response oc n hist")
  show ?case
  proof (cases r)
    case (Inl a)
    with r "1.prems" show ?thesis
      by (subst (asm) orchestrate.simps) simp
  next
    case (Inr reply)
    show ?thesis
    proof (cases reply)
      case (FinalAnswer t)
      with r Inr "1.prems" have "out = \<lparr>output' = t, intermediate_steps = steps\<rparr>"
        by (subst (asm) orchestrate.simps) simp
      with r Inr FinalAnswer show ?thesis
        by (subst orchestrate.simps) (simp add: tool_turns_def)
    next
      case (Unparseable t)
      with r Inr "1.prems" show ?thesis
        by (subst (asm) orchestrate.simps) simp
    next
      case (ToolCalls calls)
      show ?thesis
      proof (cases "max_iterations \<le> trips")
        case True
        with r Inr ToolCalls "1.prems" show ?thesis
          by (subst (asm) orchestrate.simps) simp
      next
        case False
        obtain fin err where d: "dispatch_all (dispatch oc) calls = (fin, err)"
          by (cases "dispatch_all (dispatch oc) calls")
        show ?thesis
        proof (cases err)
          case (Some e)
          with r Inr ToolCalls False d "1.prems" show ?thesis
            by (subst (asm) orchestrate.simps) simp
        next
          case None
          have eq: "orchestrate oc trips n hist steps
                      = orchestrate oc (Suc trips) n1 (hist @ tool_turns fin) (steps @ fin)"
            using r Inr ToolCalls False d None by (subst orchestrate.simps) simp
          with "1.prems" have "outcome (orchestrate oc (Suc trips) n1 (hist @ tool_turns fin) (steps @ fin)) = Inr out"
            by simp
          from "1.IH" [OF r [symmetric] Inr ToolCalls False d [symmetric] None this]
          obtain new where new: "intermediate_steps out = (steps @ fin) @ new"
            "history (orchestrate oc (Suc trips) n1 (hist @ tool_turns fin) (steps @ fin))
               = (hist @ tool_turns fin) @ tool_turns new @ [(Assistant, output' out)]"
            by blast
          have "intermediate_steps out = steps @ (fin @ new)"
            using new(1) by simp
          moreover have "history (orchestrate oc trips n hist steps)
                           = hist @ tool_turns (fin @ new) @ [(Assistant, output' out)]"
            using new(2) eq by (simp add: tool_turns_def)
          ultimately show ?thesis
            by blast
        qed
      qed
    qed
  qed
qed


lemma always_tool_run:
  "run_chat oc_always_tool [] ''where is TRACK1''
     = \<lparr>outcome = Inl (BudgetExceeded ''iteration limit''),
        history = (User, ''where is TRACK1'') # replicate 5 (Tool, ''Shipment TRACK1 not found.''),
        round_trips = 5, model_calls = 6\<rparr>"
  by code_simp


subsection \<open>An aborted invocation\<close>

lemma chat_never_raises: "\<exists>r. fst (chat ex agent msg cid) = Inr r"
  by (cases "ex (memory agent) msg") (simp add: chat_def try_except_total)

text \<open>
  Claim C4. Whenever the executor raises (the invocation is aborted by a model failure, a
  parse failure or an exceeded budget), \<^verbatim>\<open>chat\<close> returns the dictionary with the fixed
  apology and the error description \<^verbatim>\<open>str(e)\<close> instead of raising. The reply of the \<^verbatim>\<open>/chat\<close> endpoint built from that dictionary holds the apology
  and the conversation id only: the fault's description is not in it.
\<close>

theorem aborted_chat_returns_apology:
  assumes "fst (ex (memory agent) msg) = Inl e"
  shows "fst (chat ex agent msg cid)
           = Inr (PyDict [(''message'', PyStr apology),
                          (''conversation_id'', PyStr (or_new cid)),
                          (''error'', PyStr (str_exc e))])
         \<and> fst (chat_with_ai ex \<lparr>ai_agent = Some agent\<rparr> msg cid)
             = Ok \<lparr>message = apology, conversation_id = or_new cid, tokens_used = None, sources = None\<rparr>"
proof -
  obtain r mem where x: "ex (memory agent) msg = (r, mem)"
    by (cases "ex (memory agent) msg")
  with assms have r: "r = Inl e"
    by simp
  have c: "fst (chat ex agent msg cid)
             = Inr (PyDict [(''message'', PyStr apology),
                            (''conversation_id'', PyStr (or_new cid)),
                            (''error'', PyStr (str_exc e))])"
    using x r by (simp add: chat_def)
  then have "fst (chat_with_ai ex \<lparr>ai_agent = Some agent\<rparr> msg cid)
               = Ok \<lparr>message = apology, conversation_id = or_new cid, tokens_used = None, sources = None\<rparr>"
    by (cases "chat ex agent msg cid")
       (simp add: chat_with_ai_def get_ai_agent_def ChatResponse_of_def)
  with c show ?thesis
    by blast
qed

theorem aborted_chat_returns_apology_witness:
  "fst (ex_model_down (memory LogisticsAIAgent_init) ''where is TRACK1'') = Inl (PyException ''model unavailable'')
   \<and> fst (chat ex_model_down LogisticsAIAgent_init ''where is TRACK1'' (Some ''A''))
       = Inr (PyDict [(''message'', PyStr apology),
                      (''conversation_id'', PyStr ''A''),
                      (''error'', PyStr ''model unavailable'')])
   \<and> fst (chat_with_ai ex_model_down \<lparr>ai_agent = Some LogisticsAIAgent_init\<rparr> ''where is TRACK1'' (Some ''A''))
       = Ok \<lparr>message = apology, conversation_id = ''A'', tokens_used = None, sources = None\<rparr>"
proof -
  have h: "fst (ex_model_down (memory LogisticsAIAgent_init) ''where is TRACK1'')
             = Inl (PyException ''model unavailable'')"
    by (simp add: ex_model_down_def)
  show ?thesis
    using h aborted_chat_returns_apology
              [of ex_model_down LogisticsAIAgent_init "''where is TRACK1''"
                  "PyException ''model unavailable''" "Some ''A''"]
    by (simp add: or_new_def)
qed

text \<open>
  With the executor of this development, every reason for an abort reaches the caller of
  \<^verbatim>\<open>chat\<close> as the apology dictionary.
\<close>

lemma aborted_run_returns_apology:
  "outcome (run_chat oc (memory agent) msg) = Inl a \<Longrightarrow>
     fst (chat (agent_executor oc) agent msg cid)
       = Inr (PyDict [(''message'', PyStr apology),
                      (''conversation_id'', PyStr (or_new cid)),
                      (''error'', PyStr (str_exc (abort_exception a)))])"
  by (simp add: chat_def agent_executor_def)

subsection \<open>Clearing a session\<close>

lemma chat_memory: "memory (snd (chat (agent_executor oc) agent msg cid)) = history (run_chat oc (memory agent) msg)"
  by (cases "outcome (run_chat oc (memory agent) msg)") (simp_all add: chat_def agent_executor_def)

text \<open>
  Claim C6. \<^verbatim>\<open>clear_memory\<close> (and the endpoint that calls it) leaves the history empty,
  whatever it was. After the chat call that follows, the history is the one user turn of
  that call followed by turns none of which is a user turn; when the call ends in \<open>Done\<close>
  they are exactly the tool turns of its invocations and its answer. Nothing of the
  history before the clear has any effect on the call.
\<close>

theorem clear_then_chat_has_no_residue:
  "memory (clear_memory agent) = []
   \<and> ai_agent (snd (clear_conversation \<lparr>ai_agent = Some agent\<rparr> sid)) = Some \<lparr>memory = []\<rparr>
   \<and> (\<exists>ts. memory (snd (chat (agent_executor oc) (clear_memory agent) msg cid)) = (User, msg) # ts
            \<and> list_all (\<lambda>t. fst t \<noteq> User) ts)
   \<and> (outcome (run_chat oc [] msg) = Inr out \<longrightarrow>
         memory (snd (chat (agent_executor oc) (clear_memory agent) msg cid))
           = (User, msg) # tool_turns (intermediate_steps out) @ [(Assistant, output' out)])
   \<and> chat (agent_executor oc) (clear_memory agent) msg cid
       = chat (agent_executor oc) (clear_memory agent') msg cid"
proof -
  have m: "memory (snd (chat (agent_executor oc) (clear_memory agent) msg cid)) = history (run_chat oc [] msg)"
    by (simp add: chat_memory clear_memory_def)
  obtain ts where "history (run_chat oc [] msg) = [(User, msg)] @ ts" "list_all (\<lambda>t. fst t \<noteq> User) ts"
    using orchestrate_history [of oc 0 0 "[(User, msg)]" "[]"] by (auto simp: run_chat_def)
  with m have 3: "\<exists>ts. memory (snd (chat (agent_executor oc) (clear_memory agent) msg cid)) = (User, msg) # ts
                       \<and> list_all (\<lambda>t. fst t \<noteq> User) ts"
    by simp
  have 4: "memory (snd (chat (agent_executor oc) (clear_memory agent) msg cid))
             = (User, msg) # tool_turns (intermediate_steps out) @ [(Assistant, output' out)]"
    if "outcome (run_chat oc [] msg) = Inr out"
    using that m orchestrate_done [of oc 0 0 "[(User, msg)]" "[]" out]
    by (auto simp: run_chat_def)
  have "clear_memory agent = clear_memory agent'"
    by (simp add: clear_memory_def)
  then have 5: "chat (agent_executor oc) (clear_memory agent) msg cid
                  = chat (agent_executor oc) (clear_memory agent') msg cid"
    by simp
  have 1: "memory (clear_memory agent) = []"
    by (simp add: clear_memory_def)
  have 2: "ai_agent (snd (clear_conversation \<lparr>ai_agent = Some agent\<rparr> sid)) = Some \<lparr>memory = []\<rparr>"
    by (simp add: clear_conversation_def get_ai_agent_def clear_memory_def)
  from 1 2 3 4 5 show ?thesis
    by blast
qed

theorem clear_then_chat_has_no_residue_witness:
  "outcome (run_chat oc_lookup [] ''where is TRACK1'')
     = Inr \<lparr>output' = ''TRACK1 is not in the system.'',
            intermediate_steps = [(status_request, ''Shipment TRACK1 not found.'')]\<rparr>
   \<and> memory (snd (chat (agent_executor oc_lookup)
                    (clear_memory \<lparr>memory = [(User, ''an older question''), (Assistant, ''an older answer'')]\<rparr>)
                    ''where is TRACK1'' (Some ''A'')))
       = [(User, ''where is TRACK1''), (Tool, ''Shipment TRACK1 not found.''),
          (Assistant, ''TRACK1 is not in the system.'')]"
proof -
  have h: "outcome (run_chat oc_lookup [] ''where is TRACK1'')
             = Inr \<lparr>output' = ''TRACK1 is not in the system.'',
                    intermediate_steps = [(status_request, ''Shipment TRACK1 not found.'')]\<rparr>"
    by code_simp
  show ?thesis
    using h clear_then_chat_has_no_residue
              [of "\<lparr>memory = [(User, ''an older question''), (Assistant, ''an older answer'')]\<rparr>"
                  _ oc_lookup "''where is TRACK1''" "Some ''A''"
                  "\<lparr>output' = ''TRACK1 is not in the system.'',
                    intermediate_steps = [(status_request, ''Shipment TRACK1 not found.'')]\<rparr>"]
    by (simp add: tool_turns_def)
qed

subsection \<open>Sessions and the one memory\<close>

lemma chat_ignores_conversation_id:
  "snd (chat ex agent msg cid) = snd (chat ex agent msg cid')"
  by (cases "ex (memory agent) msg") (simp add: chat_def)

text \<open>
  Claim C1, at the input where it fails. Session \<open>A\<close> sends a message; the first message
  session \<open>B\<close> then sends is answered from a history that holds the turn of \<open>A\<close>, unlike the
  same message sent to a fresh application; and clearing session \<open>B\<close> empties the history
  that holds the turns of \<open>A\<close>.
\<close>

theorem sessions_share_one_memory:
  "ai_agent app_after_A
     = Some \<lparr>memory = [(User, ''my parcel is TRACK1''),
                        (Assistant, ''You first told me: my parcel is TRACK1'')]\<rparr>
   \<and> fst (chat_with_ai (agent_executor oc_echo) app_after_A ''hello'' (Some ''B''))
       = Ok \<lparr>message = ''You first told me: my parcel is TRACK1'', conversation_id = ''B'',
             tokens_used = None, sources = Some []\<rparr>
   \<and> fst (chat_with_ai (agent_executor oc_echo) app_start ''hello'' (Some ''B''))
       = Ok \<lparr>message = ''You first told me: hello'', conversation_id = ''B'',
             tokens_used = None, sources = Some []\<rparr>
   \<and> ai_agent (snd (clear_conversation app_after_A ''B'')) = Some \<lparr>memory = []\<rparr>"
  by code_simp

end
